theory Spec2Isabelle
  imports Complex_Main
begin

section \<open>Python values and exceptions\<close>

text \<open>
  The exceptions the modelled code can raise. A function of the embedding that can raise
  returns \<open>py_error + 'a\<close>, with \<open>Inl\<close> carrying the exception, or, where the state
  reached at the exception matters, that state together with the exception.
  \<open>SaveImageError\<close> stands for whatever \<^verbatim>\<open>torchvision.utils.save_image\<close> raises when it
  cannot write its file; the class of that exception depends on the cause and on the
  imaging library. Floating-point numbers of the source are modelled as exact reals, without
  rounding. The finite range of a Python float is modelled in \<^verbatim>\<open>get_decay\<close>, where leaving
  it raises or yields an infinity; tensor arithmetic never raises on overflow.
\<close>

datatype py_error =
    KeyError string
  | TypeError
  | ValueError
  | AttributeError
  | ZeroDivisionError
  | OverflowError
  | IndexError
  | RuntimeError
  | UnboundLocalError
  | SaveImageError

text \<open>
  The configuration is the result of \<^verbatim>\<open>json.load\<close>: a dictionary of JSON values.
  A dictionary is an association list (the first binding of a key is the one in force).
\<close>

datatype json =
    JNull
  | JBool bool
  | JInt int
  | JFloat real
  | JStr string
  | JArr "json list"
  | JObj "(string \<times> json) list"

type_synonym config = "(string \<times> json) list"

text \<open>Python truthiness, as \<^verbatim>\<open>if v:\<close> evaluates it.\<close>

fun truthy :: "json \<Rightarrow> bool" where
  "truthy JNull = False"
| "truthy (JBool b) = b"
| "truthy (JInt i) = (i \<noteq> 0)"
| "truthy (JFloat r) = (r \<noteq> 0)"
| "truthy (JStr s) = (s \<noteq> [])"
| "truthy (JArr xs) = (xs \<noteq> [])"
| "truthy (JObj kvs) = (kvs \<noteq> [])"

text \<open>\<^verbatim>\<open>cfg.get(k)\<close>: the value, or \<^verbatim>\<open>None\<close> when the key is absent.\<close>

definition dict_get :: "config \<Rightarrow> string \<Rightarrow> json" where
  "dict_get cfg k = (case map_of cfg k of None \<Rightarrow> JNull | Some v \<Rightarrow> v)"

text \<open>\<^verbatim>\<open>cfg[k]\<close> on a dictionary: \<^verbatim>\<open>KeyError\<close> when the key is absent.\<close>

definition dict_item :: "config \<Rightarrow> string \<Rightarrow> py_error + json" where
  "dict_item cfg k = (case map_of cfg k of None \<Rightarrow> Inl (KeyError k) | Some v \<Rightarrow> Inr v)"

text \<open>
  \<^verbatim>\<open>v[k]\<close> with a string key on an arbitrary JSON value: only a dictionary can be
  subscripted by a string; \<^verbatim>\<open>None\<close>, numbers, strings and lists raise \<^verbatim>\<open>TypeError\<close>.
\<close>

fun getitem :: "json \<Rightarrow> string \<Rightarrow> py_error + json" where
  "getitem (JObj kvs) k = dict_item kvs k"
| "getitem _ k = Inl TypeError"

section \<open>The training entry point (train.py, \<^verbatim>\<open>training\<close>)\<close>

text \<open>
  The observable actions of the entry point, in the order they happen: the fit
  procedure, the final checkpoint written under the configured checkpoint path, and the
  test procedure with the checkpoint path it is given. The data module, the model and the
  trainer are external collaborators; their construction is not modelled beyond the
  configuration keys it reads.
\<close>

datatype action =
    Fit
  | SaveCheckpoint json
  | Test json

text \<open>
  The keys read with \<^verbatim>\<open>cfg[...]\<close> before the training phase, in the order the function
  reads them. The first absent one raises \<^verbatim>\<open>KeyError\<close>.
\<close>

definition required_keys :: "string list" where
  "required_keys =
     [''seed'', ''dataset_path'', ''image_size'', ''batch_size'', ''lr'',
      ''output_dir'', ''mse_loss_lambda'', ''identity_consistency_loss_lambda'',
      ''ckpt_path'']"

fun check_keys :: "config \<Rightarrow> string list \<Rightarrow> py_error option" where
  "check_keys cfg [] = None"
| "check_keys cfg (k # ks) =
     (case map_of cfg k of None \<Rightarrow> Some (KeyError k) | Some v \<Rightarrow> check_keys cfg ks)"

text \<open>
  The checkpoint path of the test phase (lines 167 to 174). The second argument is
  \<^verbatim>\<open>trainer.checkpoint_callback\<close>: \<open>None\<close> when the trainer has no checkpoint callback,
  otherwise the callback's \<^verbatim>\<open>best_model_path\<close>. Python's \<^verbatim>\<open>None\<close> is \<open>JNull\<close>.
\<close>

definition resolve_ckpt :: "config \<Rightarrow> string option \<Rightarrow> py_error + json" where
  "resolve_ckpt cfg checkpoint_callback =
     (if truthy (dict_get cfg ''ckpt_path'') \<and> \<not> truthy (dict_get cfg ''train'')
      then Inr (dict_get cfg ''ckpt_path'')
      else (case getitem (dict_get cfg ''trainer'') ''ckpt_path'' of
              Inl e \<Rightarrow> Inl e
            | Inr v \<Rightarrow>
                if truthy v \<and> \<not> truthy (dict_get cfg ''train'')
                then Inr JNull
                else (case checkpoint_callback of
                        None \<Rightarrow> Inl AttributeError
                      | Some best_model_path \<Rightarrow> Inr (JStr best_model_path))))"

text \<open>The test phase (lines 165 to 180), given the actions performed so far.\<close>

definition test_phase :: "config \<Rightarrow> string option \<Rightarrow> action list \<Rightarrow> action list \<times> py_error option" where
  "test_phase cfg checkpoint_callback acts =
     (if truthy (dict_get cfg ''test'')
      then (case resolve_ckpt cfg checkpoint_callback of
              Inl e \<Rightarrow> (acts, Some e)
            | Inr ckpt_path \<Rightarrow>
                if ckpt_path = JStr '''' then (acts, Some ValueError)
                else (acts @ [Test ckpt_path], None))
      else (acts, None))"

text \<open>
  The whole function: the actions performed, and the exception raised, if any. The
  training phase is guarded by \<^verbatim>\<open>cfg["training"]\<close>.
\<close>

definition training :: "config \<Rightarrow> string option \<Rightarrow> action list \<times> py_error option" where
  "training cfg checkpoint_callback =
     (case check_keys cfg required_keys of
        Some e \<Rightarrow> ([], Some e)
      | None \<Rightarrow>
          (case dict_item cfg ''training'' of
             Inl e \<Rightarrow> ([], Some e)
           | Inr tr \<Rightarrow>
               test_phase cfg checkpoint_callback
                 (if truthy tr then [Fit, SaveCheckpoint (dict_get cfg ''ckpt_path'')] else [])))"

section \<open>The minimal training loop (cddpm.py, lines 580 to 623)\<close>

text \<open>
  The state of the loop that matters for checkpointing: the recorded per-epoch losses,
  the variable \<^verbatim>\<open>prev_loss\<close> (unbound before the first epoch), and the epochs at whose end
  \<^verbatim>\<open>torch.save\<close> wrote the model weights to the fixed path, in order.
\<close>

record loop_state =
  losses :: "real list"
  prev_loss :: "real option"
  saved_at :: "nat list"

definition init_loop :: loop_state where
  "init_loop = \<lparr>losses = [], prev_loss = None, saved_at = []\<rparr>"

text \<open>
  The first statement of the epoch body is \<^verbatim>\<open>unet.training()\<close>. The class \<^verbatim>\<open>UNet\<close> defines
  no method of that name, so \<^verbatim>\<open>unet.training\<close> is the boolean attribute every
  \<^verbatim>\<open>nn.Module\<close> carries (set to \<^verbatim>\<open>True\<close> by the constructor), and calling a boolean raises
  \<^verbatim>\<open>TypeError\<close>.
\<close>

definition unet_training :: bool where
  "unet_training = True"

definition call_bool :: "bool \<Rightarrow> py_error + unit" where
  "call_bool b = Inl TypeError"

text \<open>
  The statements of the epoch body after the first (lines 583 to 623). The argument
  \<open>batch_losses\<close> holds \<^verbatim>\<open>loss.item()\<close> of each batch of the train loader, so
  \<^verbatim>\<open>it = len(train_loader)\<close> is its length and \<^verbatim>\<open>train_loss\<close> its sum. The assignment
  \<^verbatim>\<open>prev_loss = 1000000\<close> precedes the loop over the batches; the division \<^verbatim>\<open>train_loss/it\<close>
  raises when the loader is empty. The result is the state reached and the exception
  raised, if any.
\<close>

definition epoch_rest :: "nat \<Rightarrow> real list \<Rightarrow> loop_state \<Rightarrow> loop_state \<times> py_error option" where
  "epoch_rest epoch batch_losses st =
     (let train_loss = sum_list batch_losses;
          it = length batch_losses;
          st1 = st\<lparr>prev_loss := Some 1000000\<rparr>
      in if it = 0 then (st1, Some ZeroDivisionError)
         else
           let avg = train_loss / real it;
               st2 = st1\<lparr>losses := losses st1 @ [avg]\<rparr>;
               st3 = (if avg < the (prev_loss st2)
                      then st2\<lparr>saved_at := saved_at st2 @ [epoch]\<rparr> else st2)
           in (st3\<lparr>prev_loss := Some avg\<rparr>, None))"

text \<open>One epoch: the call \<^verbatim>\<open>unet.training()\<close>, then the rest of the body.\<close>

definition epoch_body :: "nat \<Rightarrow> real list \<Rightarrow> loop_state \<Rightarrow> loop_state \<times> py_error option" where
  "epoch_body epoch batch_losses st =
     (case call_bool unet_training of
        Inl e \<Rightarrow> (st, Some e)
      | Inr u \<Rightarrow> epoch_rest epoch batch_losses st)"

text \<open>
  \<^verbatim>\<open>for epoch in range(epochs)\<close>, one list of batch losses per epoch: the losses the forward
  passes of that epoch would yield. An exception ends the loop.
\<close>

fun epochs_from :: "nat \<Rightarrow> real list list \<Rightarrow> loop_state \<Rightarrow> loop_state \<times> py_error option" where
  "epochs_from epoch [] st = (st, None)"
| "epochs_from epoch (b # bs) st =
     (case epoch_body epoch b st of
        (st', Some e) \<Rightarrow> (st', Some e)
      | (st', None) \<Rightarrow> epochs_from (Suc epoch) bs st')"

definition training_loop :: "real list list \<Rightarrow> loop_state \<times> py_error option" where
  "training_loop per_epoch = epochs_from 0 per_epoch init_loop"

section \<open>The variance schedule (training_utils.py, lines 67 to 70; cddpm.py, lines 527 to 530)\<close>

text \<open>
  \<^verbatim>\<open>torch.linspace(start, end, steps)\<close>: \<open>steps\<close> points from \<open>start\<close> to \<open>end\<close>, both included;
  a single point is \<open>start\<close>.
\<close>

definition linspace :: "real \<Rightarrow> real \<Rightarrow> nat \<Rightarrow> real list" where
  "linspace start stop steps =
     (if steps = 1 then [start]
      else map (\<lambda>i. start + real i * ((stop - start) / real (steps - 1))) [0..<steps])"

text \<open>\<^verbatim>\<open>torch.cumprod(xs, dim=0)\<close>: the running products.\<close>

fun cumprod_from :: "real \<Rightarrow> real list \<Rightarrow> real list" where
  "cumprod_from acc [] = []"
| "cumprod_from acc (x # xs) = (acc * x) # cumprod_from (acc * x) xs"

definition cumprod :: "real list \<Rightarrow> real list" where
  "cumprod xs = cumprod_from 1 xs"

text \<open>
  The three module-level statements that build the schedule, with the two bounds and the
  number of steps as parameters:
  \<^verbatim>\<open>beta = torch.linspace(beta_start, beta_end, n_steps)\<close>,
  \<^verbatim>\<open>alpha = 1. - beta\<close>, \<^verbatim>\<open>alpha_bar = torch.cumprod(alpha, dim=0)\<close>.
\<close>

definition schedule_beta :: "real \<Rightarrow> real \<Rightarrow> nat \<Rightarrow> real list" where
  "schedule_beta beta_start beta_end n = linspace beta_start beta_end n"

definition schedule_alpha :: "real \<Rightarrow> real \<Rightarrow> nat \<Rightarrow> real list" where
  "schedule_alpha beta_start beta_end n = map (\<lambda>b. 1 - b) (schedule_beta beta_start beta_end n)"

definition schedule_alpha_bar :: "real \<Rightarrow> real \<Rightarrow> nat \<Rightarrow> real list" where
  "schedule_alpha_bar beta_start beta_end n = cumprod (schedule_alpha beta_start beta_end n)"

text \<open>The schedule of the module: 1000 steps, \<open>beta\<close> from 0.0001 to 0.04.\<close>

definition n_steps :: nat where
  "n_steps = 1000"

definition beta :: "real list" where
  "beta = schedule_beta (1 / 10000) (4 / 100) n_steps"

definition alpha :: "real list" where
  "alpha = schedule_alpha (1 / 10000) (4 / 100) n_steps"

definition alpha_bar :: "real list" where
  "alpha_bar = schedule_alpha_bar (1 / 10000) (4 / 100) n_steps"

section \<open>Tensors, the random generator, and the diffusion steps (training_utils.py)\<close>

text \<open>Sequencing of computations that may raise.\<close>

definition py_bind :: "py_error + 'a \<Rightarrow> ('a \<Rightarrow> py_error + 'b) \<Rightarrow> py_error + 'b" where
  "py_bind m k = (case m of Inl e \<Rightarrow> Inl e | Inr v \<Rightarrow> k v)"

text \<open>
  An image batch of shape \<open>(B, C, H, W)\<close> is the list of its \<open>B\<close> samples, each sample the
  flat list of its \<open>C * H * W\<close> numbers. The \<open>(B, 1, 1, 1)\<close> tensor that \<^verbatim>\<open>gather\<close>
  returns is the list of its \<open>B\<close> scalars, one per sample. The embedding covers the two
  kinds of elementwise operation the module uses: between two batches of the same shape
  (\<open>ew\<close>), and between a per-sample scalar and a batch with as many samples (\<open>ew_col\<close>).
  Operands whose shapes differ raise; torch's expansion of further size-1 dimensions is
  not part of the embedding.
\<close>

type_synonym tensor = "real list list"

definition same_shape :: "tensor \<Rightarrow> tensor \<Rightarrow> bool" where
  "same_shape x y \<longleftrightarrow> map length x = map length y"

definition ew :: "(real \<Rightarrow> real \<Rightarrow> real) \<Rightarrow> tensor \<Rightarrow> tensor \<Rightarrow> py_error + tensor" where
  "ew f x y = (if same_shape x y then Inr (map2 (map2 f) x y) else Inl RuntimeError)"

definition ew_col :: "(real \<Rightarrow> real \<Rightarrow> real) \<Rightarrow> real list \<Rightarrow> tensor \<Rightarrow> py_error + tensor" where
  "ew_col f c x =
     (if length c = length x then Inr (map2 (\<lambda>a row. map (f a) row) c x) else Inl RuntimeError)"

text \<open>
  \<^verbatim>\<open>consts.gather(-1, t).reshape(-1, 1, 1, 1)\<close>: one constant per timestep of the batch.
  An index outside the table raises.
\<close>

definition gather :: "real list \<Rightarrow> int list \<Rightarrow> py_error + real list" where
  "gather consts t =
     (if list_all (\<lambda>i. 0 \<le> i \<and> i < int (length consts)) t
      then Inr (map (\<lambda>i. consts ! nat i) t) else Inl RuntimeError)"

text \<open>
  The process-wide random generator. Its state is a position in two fixed streams: the
  normal deviates \<^verbatim>\<open>randn\<close> hands out and the raw integers \<^verbatim>\<open>randint\<close> reduces to its
  range. Every draw advances the position, so no value is handed out twice. The streams
  are arbitrary: the distribution of their values is not part of the embedding.
\<close>

record rng =
  gauss :: "nat \<Rightarrow> real"
  raw :: "nat \<Rightarrow> nat"
  pos :: nat

definition draw :: "nat \<Rightarrow> rng \<Rightarrow> real list \<times> rng" where
  "draw n g = (map (gauss g) [pos g ..< pos g + n], g\<lparr>pos := pos g + n\<rparr>)"

fun draw_rows :: "nat list \<Rightarrow> rng \<Rightarrow> tensor \<times> rng" where
  "draw_rows [] g = ([], g)"
| "draw_rows (m # ms) g =
     (let (r, g1) = draw m g; (rs, g2) = draw_rows ms g1 in (r # rs, g2))"

text \<open>\<^verbatim>\<open>torch.randn_like(x)\<close>: a draw of the shape of \<open>x\<close>.\<close>

definition randn_like :: "tensor \<Rightarrow> rng \<Rightarrow> tensor \<times> rng" where
  "randn_like x g = draw_rows (map length x) g"

text \<open>The forward step in closed form, returning the noisy batch and the noise.\<close>

definition q_xt_x0 :: "tensor \<Rightarrow> int list \<Rightarrow> rng \<Rightarrow> py_error + ((tensor \<times> tensor) \<times> rng)" where
  "q_xt_x0 x0 t g =
     py_bind (gather alpha_bar t) (\<lambda>alpha_bar_t.
     py_bind (ew_col (*) (map sqrt alpha_bar_t) x0) (\<lambda>mean.
       let std = map (\<lambda>a. sqrt (1 - a)) alpha_bar_t;
           (noise, g') = randn_like x0 g
       in py_bind (ew_col (*) std noise) (\<lambda>sn.
          py_bind (ew (+) mean sn) (\<lambda>x_t. Inr ((x_t, noise), g')))))"

text \<open>The reverse step.\<close>

definition p_xt :: "tensor \<Rightarrow> tensor \<Rightarrow> int list \<Rightarrow> rng \<Rightarrow> py_error + (tensor \<times> rng)" where
  "p_xt xt noise t g =
     py_bind (gather alpha t) (\<lambda>alpha_t.
     py_bind (gather alpha_bar t) (\<lambda>alpha_bar_t.
     py_bind (gather beta t) (\<lambda>beta_t.
       let eps_coef = map2 (\<lambda>a ab. (1 - a) / sqrt (1 - ab)) alpha_t alpha_bar_t
       in py_bind (ew_col (*) eps_coef noise) (\<lambda>en.
          py_bind (ew (-) xt en) (\<lambda>num.
          py_bind (ew_col (\<lambda>a v. v / a) (map sqrt alpha_t) num) (\<lambda>mu.
            let (z, g') = randn_like xt g;
                std = map sqrt beta_t
            in py_bind (ew_col (\<lambda>s v. v * s) std z) (\<lambda>zs.
               py_bind (ew (+) mu zs) (\<lambda>xt_1. Inr (xt_1, g')))))))))"

section \<open>The exponential moving average of the weights (training_utils.py, \<^verbatim>\<open>EMAModel\<close>)\<close>

subsection \<open>Python floats in \<^verbatim>\<open>get_decay\<close>\<close>

text \<open>
  A Python float is a double. Its value is modelled as an exact real (rounding is not
  modelled), its range is: a result whose magnitude reaches \<open>float_ovf\<close>, the midpoint
  between the largest double and \<open>2 ^ 1024\<close>, does not fit. What happens then depends on the
  operation, as below. The infinities are values of their own; no operation of \<^verbatim>\<open>get_decay\<close>
  yields a NaN from finite parameters. Since rounding is not modelled, the embedding and
  the code can part where a rounded intermediate value meets a boundary that the exact
  value misses: a base that rounds to zero, or a result within a rounding error of the
  range.
\<close>

definition float_ovf :: real where
  "float_ovf = 2 ^ 1024 - 2 ^ 970"

datatype pyfloat = Fin real | PInf | NInf

text \<open>
  The conversion of a Python integer to a float, which \<^verbatim>\<open>step / self.inv_gamma\<close> applies to
  \<open>step\<close>: \<^verbatim>\<open>OverflowError\<close> (int too large to convert to float) when it does not fit.
\<close>

definition int_to_float :: "int \<Rightarrow> py_error + real" where
  "int_to_float i = (if float_ovf \<le> \<bar>of_int i\<bar> then Inl OverflowError else Inr (of_int i))"

text \<open>
  The quotient of two finite floats: \<^verbatim>\<open>ZeroDivisionError\<close> on a zero divisor; a quotient that
  does not fit is an infinity, without an exception.
\<close>

definition float_div :: "real \<Rightarrow> real \<Rightarrow> py_error + pyfloat" where
  "float_div a b =
     (if b = 0 then Inl ZeroDivisionError
      else if float_ovf \<le> a / b then Inr PInf
      else if a / b \<le> - float_ovf then Inr NInf
      else Inr (Fin (a / b)))"

text \<open>
  \<^verbatim>\<open>1 + q\<close> and \<^verbatim>\<open>1 - p\<close>. Adding 1 to a finite double never leaves the range (the sum rounds
  to the largest double at most), so neither has an overflow case.
\<close>

fun one_plus :: "pyfloat \<Rightarrow> pyfloat" where
  "one_plus (Fin r) = Fin (1 + r)"
| "one_plus PInf = PInf"
| "one_plus NInf = NInf"

fun one_minus :: "pyfloat \<Rightarrow> pyfloat" where
  "one_minus (Fin r) = Fin (1 - r)"
| "one_minus PInf = NInf"
| "one_minus NInf = PInf"

text \<open>
  The value of a Python power \<^verbatim>\<open>x ** w\<close> of two floats, \<open>w\<close> finite: a float, or a complex
  number when a negative finite base meets an exponent that is not an integer. Every later
  use of the complex value in \<^verbatim>\<open>get_decay\<close> raises or discards it, so it carries no content
  here. The cases are those of CPython's \<^verbatim>\<open>float_pow\<close>: a zero exponent gives 1; an infinite
  base gives an infinity or zero; a zero base raises \<^verbatim>\<open>ZeroDivisionError\<close> for a negative
  exponent; a finite result that does not fit raises \<^verbatim>\<open>OverflowError\<close>, also for the complex
  power; a negative base with an odd integer exponent negates the power of its absolute
  value.
\<close>

datatype pynum = PyFloat pyfloat | PyComplex

definition is_integer :: "real \<Rightarrow> bool" where
  "is_integer w \<longleftrightarrow> w = of_int \<lfloor>w\<rfloor>"

definition float_pow :: "pyfloat \<Rightarrow> real \<Rightarrow> py_error + pynum" where
  "float_pow v w =
     (if w = 0 then Inr (PyFloat (Fin 1))
      else case v of
          PInf \<Rightarrow> Inr (PyFloat (if 0 < w then PInf else Fin 0))
        | NInf \<Rightarrow>
            Inr (PyFloat (if 0 < w then (if is_integer w \<and> odd \<lfloor>w\<rfloor> then NInf else PInf) else Fin 0))
        | Fin x \<Rightarrow>
            if x = 0 then (if w < 0 then Inl ZeroDivisionError else Inr (PyFloat (Fin 0)))
            else if float_ovf \<le> \<bar>x\<bar> powr w then Inl OverflowError
            else if x < 0 \<and> \<not> is_integer w then Inr PyComplex
            else Inr (PyFloat (Fin (if x < 0 \<and> odd \<lfloor>w\<rfloor> then - (\<bar>x\<bar> powr w) else \<bar>x\<bar> powr w))))"

text \<open>
  \<^verbatim>\<open>max(lo, min(v, hi))\<close> for finite \<open>lo\<close> and \<open>hi\<close>: \<^verbatim>\<open>min\<close> keeps its first argument unless
  the second is smaller, \<^verbatim>\<open>max\<close> unless the second is larger. The result is finite.
\<close>

fun max_min :: "real \<Rightarrow> pyfloat \<Rightarrow> real \<Rightarrow> real" where
  "max_min lo (Fin v) hi = max lo (min v hi)"
| "max_min lo PInf hi = max lo hi"
| "max_min lo NInf hi = lo"

subsection \<open>The decay\<close>

text \<open>
  The parameters of the tracker: \<^verbatim>\<open>update_after_step\<close> an integer, the others finite floats.
\<close>

record ema_config =
  update_after_step :: int
  inv_gamma :: real
  power :: real
  min_value :: real
  max_value :: real

text \<open>The defaults of the constructor.\<close>

definition default_config :: ema_config where
  "default_config =
     \<lparr>update_after_step = 0, inv_gamma = 1, power = 2 / 3, min_value = 0, max_value = 9999 / 10000\<rparr>"

text \<open>
  \<^verbatim>\<open>get_decay\<close>, for an integer argument. The statement
  \<^verbatim>\<open>value = 1 - (1 + step / self.inv_gamma) ** -self.power\<close> is evaluated first, operation by
  operation; the test of \<open>step\<close> follows it. \<^verbatim>\<open>min\<close> raises \<^verbatim>\<open>TypeError\<close> on a complex \<open>value\<close>.
\<close>

definition get_decay :: "ema_config \<Rightarrow> int \<Rightarrow> py_error + real" where
  "get_decay c optimization_step =
     (let step = max 0 (optimization_step - update_after_step c - 1)
      in py_bind (int_to_float step) (\<lambda>x.
         py_bind (float_div x (inv_gamma c)) (\<lambda>q.
         py_bind (float_pow (one_plus q) (- power c)) (\<lambda>p.
           let v = (case p of PyFloat r \<Rightarrow> PyFloat (one_minus r) | PyComplex \<Rightarrow> PyComplex)
           in if step \<le> 0 then Inr 0
              else (case v of
                      PyComplex \<Rightarrow> Inl TypeError
                    | PyFloat r \<Rightarrow> Inr (max_min (min_value c) r (max_value c)))))))"

text \<open>The clamp of the specification, for stating what \<^verbatim>\<open>get_decay\<close> returns.\<close>

definition clamp :: "real \<Rightarrow> real \<Rightarrow> real \<Rightarrow> real" where
  "clamp v lo hi = max lo (min v hi)"

subsection \<open>Parameter tensors and the in-place operations\<close>

text \<open>
  A parameter or buffer tensor: its shape and its elements in row-major order (of a
  floating dtype, as exact reals). A tensor of torch has as many elements as the product of
  its shape; \<open>well_formed\<close> states this where a property needs it.
\<close>

record ptensor =
  shape :: "nat list"
  elems :: "real list"


text \<open>
  Broadcasting into a fixed target, as the in-place operations \<^verbatim>\<open>copy_\<close> and \<^verbatim>\<open>add_\<close> do it:
  the shapes are aligned at their last dimension; the source may have fewer dimensions than
  the target, and each of its dimensions must equal the target's or be 1. Both functions
  take the two shapes reversed. \<open>src_index\<close> gives, for a row-major position in the target,
  the position of the source element that lands there.
\<close>

fun broadcastable :: "nat list \<Rightarrow> nat list \<Rightarrow> bool" where
  "broadcastable [] ds = True"
| "broadcastable (s # ss) [] = False"
| "broadcastable (s # ss) (d # ds) = ((s = d \<or> s = 1) \<and> broadcastable ss ds)"

fun src_index :: "nat list \<Rightarrow> nat list \<Rightarrow> nat \<Rightarrow> nat" where
  "src_index (s # ss) (d # ds) i = (if s = 1 then 0 else i mod d) + s * src_index ss ds (i div d)"
| "src_index [] ds i = 0"
| "src_index (s # ss) [] i = 0"

text \<open>The elements of a tensor expanded to a target shape; the expansion raises when the
  shapes do not allow it.\<close>

definition expanded :: "nat list \<Rightarrow> ptensor \<Rightarrow> real list" where
  "expanded dshape t =
     map (\<lambda>i. elems t ! src_index (rev (shape t)) (rev dshape) i) [0..<prod_list dshape]"

definition expand_to :: "nat list \<Rightarrow> ptensor \<Rightarrow> py_error + real list" where
  "expand_to dshape t =
     (if broadcastable (rev (shape t)) (rev dshape) then Inr (expanded dshape t) else Inl RuntimeError)"

text \<open>
  The three in-place operations \<^verbatim>\<open>step\<close> uses, returning the new value of their target:
  \<^verbatim>\<open>dst.copy_(src)\<close>, \<^verbatim>\<open>dst.mul_(c)\<close> with a number, and \<^verbatim>\<open>dst.add_(src, alpha=a)\<close>.
\<close>

definition copy_into :: "ptensor \<Rightarrow> ptensor \<Rightarrow> py_error + ptensor" where
  "copy_into dst src = py_bind (expand_to (shape dst) src) (\<lambda>xs. Inr (dst\<lparr>elems := xs\<rparr>))"

definition mul_inplace :: "ptensor \<Rightarrow> real \<Rightarrow> ptensor" where
  "mul_inplace dst c = dst\<lparr>elems := map (\<lambda>v. v * c) (elems dst)\<rparr>"

definition add_inplace :: "ptensor \<Rightarrow> ptensor \<Rightarrow> real \<Rightarrow> py_error + ptensor" where
  "add_inplace dst src a =
     py_bind (expand_to (shape dst) src) (\<lambda>xs.
       Inr (dst\<lparr>elems := map2 (\<lambda>v s. v + a * s) (elems dst) xs\<rparr>))"

subsection \<open>The step\<close>

text \<open>
  The live model as \<^verbatim>\<open>step\<close> reads it: its named parameters and its named buffers, in
  order. The tracker: its configuration, the state dict of the averaged model (its
  parameters and the buffers it saves, by name, in the order of \<^verbatim>\<open>state_dict()\<close>), the
  current decay and the step counter.
\<close>

record param =
  data :: ptensor
  requires_grad :: bool

record live_model =
  named_parameters :: "(string \<times> param) list"
  named_buffers :: "(string \<times> ptensor) list"

record ema =
  config :: ema_config
  averaged_model :: "(string \<times> ptensor) list"
  decay :: real
  optimization_step :: int

type_synonym state_dict = "string \<rightharpoonup> ptensor"

text \<open>
  The body of the loop over the named parameters, on the pair of the dictionaries
  \<^verbatim>\<open>ema_params\<close> (initially the state dict of the averaged model) and \<^verbatim>\<open>ema_state_dict\<close>.
  A name that \<^verbatim>\<open>ema_params\<close> lacks is seeded with a copy of the parameter. A parameter
  that does not require gradients is copied over the entry; any other is blended into it
  in place. (A parameter is never a \<^verbatim>\<open>dict\<close>, so the first test of the loop never fires.)
\<close>

definition update_param :: "real \<Rightarrow> state_dict \<times> state_dict \<Rightarrow> string \<times> param \<Rightarrow> py_error + (state_dict \<times> state_dict)" where
  "update_param d st kp =
     (let (ema_params, ema_state_dict) = st;
          (key, p) = kp;
          (ema_param, ema_params1) =
             (case ema_params key of
                Some v \<Rightarrow> (v, ema_params)
              | None \<Rightarrow> (data p, ema_params(key \<mapsto> data p)))
      in py_bind
           (if \<not> requires_grad p then copy_into ema_param (data p)
            else add_inplace (mul_inplace ema_param d) (data p) (1 - d))
           (\<lambda>new. Inr (ema_params1(key \<mapsto> new), ema_state_dict(key \<mapsto> new))))"

fun update_params :: "real \<Rightarrow> state_dict \<times> state_dict \<Rightarrow> (string \<times> param) list \<Rightarrow> py_error + (state_dict \<times> state_dict)" where
  "update_params d st [] = Inr st"
| "update_params d st (kp # kps) = py_bind (update_param d st kp) (\<lambda>st'. update_params d st' kps)"

text \<open>
  \<^verbatim>\<open>load_state_dict(sd, strict=False)\<close> on a model with the entries \<open>own\<close>. The names of
  \<open>sd\<close> that the model lacks are passed over, and so are the entries of the model that \<open>sd\<close>
  lacks. For an entry whose name \<open>sd\<close> has, the tensor given there is first replaced by its
  element 0 when the entry has no dimension and the tensor has one (torch's rule for old
  checkpoints; \<^verbatim>\<open>IndexError\<close> on an empty tensor); then it must have the shape of the entry,
  and is copied into it. A shape that differs is recorded, the other entries are still
  loaded, and \<^verbatim>\<open>RuntimeError\<close> is raised at the end.
\<close>

definition load_input :: "ptensor \<Rightarrow> ptensor \<Rightarrow> py_error + ptensor" where
  "load_input v w =
     (if shape v = [] \<and> length (shape w) = 1
      then (if shape w = [0] then Inl IndexError else Inr \<lparr>shape = [], elems = [elems w ! 0]\<rparr>)
      else Inr w)"

fun load_entries :: "(string \<times> ptensor) list \<Rightarrow> state_dict \<Rightarrow> py_error + ((string \<times> ptensor) list \<times> bool)" where
  "load_entries [] sd = Inr ([], False)"
| "load_entries ((k, v) # own) sd =
     (case sd k of
        None \<Rightarrow> py_bind (load_entries own sd) (\<lambda>(rest, mismatch). Inr ((k, v) # rest, mismatch))
      | Some w \<Rightarrow>
          py_bind (load_input v w) (\<lambda>w'.
          py_bind (load_entries own sd) (\<lambda>(rest, mismatch).
            if shape w' = shape v then Inr ((k, w') # rest, mismatch)
            else Inr ((k, v) # rest, True))))"

definition load_state_dict :: "(string \<times> ptensor) list \<Rightarrow> state_dict \<Rightarrow> py_error + (string \<times> ptensor) list" where
  "load_state_dict own sd =
     py_bind (load_entries own sd) (\<lambda>(am, mismatch). if mismatch then Inl RuntimeError else Inr am)"

text \<open>\<^verbatim>\<open>EMAModel.step\<close>.\<close>

definition step :: "ema \<Rightarrow> live_model \<Rightarrow> py_error + ema" where
  "step e new_model =
     py_bind (get_decay (config e) (optimization_step e)) (\<lambda>d.
     py_bind (update_params d (map_of (averaged_model e), Map.empty) (named_parameters new_model))
       (\<lambda>st.
          let ema_state_dict = fold (\<lambda>kb m. m(fst kb \<mapsto> snd kb)) (named_buffers new_model) (snd st)
          in py_bind (load_state_dict (averaged_model e) ema_state_dict) (\<lambda>am.
               Inr (e\<lparr>averaged_model := am, decay := d,
                      optimization_step := optimization_step e + 1\<rparr>))))"

text \<open>
  For stating what \<^verbatim>\<open>step\<close> does: the value a parameter leaves in an entry \<open>v\<close> of the
  averaged model, and the shapes \<^verbatim>\<open>load_state_dict\<close> accepts for an entry \<open>v\<close>.
\<close>

definition blend :: "real \<Rightarrow> ptensor \<Rightarrow> param \<Rightarrow> ptensor" where
  "blend d v p =
     v\<lparr>elems := (if requires_grad p
                 then map2 (\<lambda>s x. s * d + x * (1 - d)) (elems v) (expanded (shape v) (data p))
                 else expanded (shape v) (data p))\<rparr>"


section \<open>The conditioned sampling routine (training_utils.py, \<^verbatim>\<open>generate_image\<close>)\<close>




text \<open>
  What the routine does to the world: it advances the generator, updates the progress bar
  of the current batch (\<open>bar\<close>; \<open>bars\<close> holds the final counts of the bars of the batches
  done), calls the model (\<open>calls\<close>, the arguments of every call in order), and writes
  image files (\<open>files\<close>, the path and the image tensor of every \<^verbatim>\<open>save_image\<close> in order).
\<close>

record 'h gen_state =
  gen :: rng
  bar :: nat
  bars :: "nat list"
  calls :: "(tensor \<times> int list \<times> 'h) list"
  files :: "(string \<times> real list) list"











definition timesteps_at :: "rng \<Rightarrow> nat \<Rightarrow> nat \<Rightarrow> nat \<Rightarrow> int list" where
  "timesteps_at g q high b = map (\<lambda>k. int (raw g k mod high)) [q ..< q + b]"

definition noise_at :: "rng \<Rightarrow> nat \<Rightarrow> nat \<Rightarrow> nat \<Rightarrow> tensor" where
  "noise_at g q b m = map (\<lambda>r. map (\<lambda>j. gauss g (q + r * m + j)) [0..<m]) [0..<b]"




section \<open>Properties of the training entry point\<close>

lemma resolve_explicit:
  "truthy (dict_get cfg ''ckpt_path'') \<Longrightarrow> \<not> truthy (dict_get cfg ''train'') \<Longrightarrow>
   resolve_ckpt cfg cb = Inr (dict_get cfg ''ckpt_path'')"
  by (simp add: resolve_ckpt_def)

lemma getitem_not_ValueError: "getitem v k \<noteq> Inl ValueError"
  by (cases v) (auto simp: dict_item_def split: option.splits)

lemma resolve_ckpt_not_ValueError: "resolve_ckpt cfg cb \<noteq> Inl ValueError"
  using getitem_not_ValueError [of "dict_get cfg ''trainer''" "''ckpt_path''"]
  by (auto simp: resolve_ckpt_def split: sum.splits option.splits if_splits)

lemma test_phase_ValueError_iff:
  "snd (test_phase cfg cb acts) = Some ValueError \<longleftrightarrow>
   truthy (dict_get cfg ''test'') \<and> resolve_ckpt cfg cb = Inr (JStr '''')"
  using resolve_ckpt_not_ValueError [of cfg cb]
  by (auto simp: test_phase_def split: sum.splits if_splits)

text \<open>
  C1. The claim gives the explicit \<^verbatim>\<open>ckpt_path\<close> precedence only when the run is not
  training as well, and otherwise the best checkpoint of the checkpoint callback. The
  function trains under the key \<^verbatim>\<open>training\<close>, but its test phase asks for the key
  \<^verbatim>\<open>train\<close>: on a configuration that sets \<^verbatim>\<open>training\<close> and \<^verbatim>\<open>test\<close> (and has no key
  \<^verbatim>\<open>train\<close>), the run fits the model, writes the final checkpoint, and then tests against
  the configured \<^verbatim>\<open>ckpt_path\<close>, not against the callback's best checkpoint.
\<close>

theorem training_tests_configured_path_after_fit:
  "training
     [(''seed'', JInt 0), (''dataset_path'', JStr ''data''), (''image_size'', JInt 112),
      (''batch_size'', JInt 8), (''lr'', JFloat 1), (''output_dir'', JStr ''out''),
      (''mse_loss_lambda'', JInt 1), (''identity_consistency_loss_lambda'', JInt 1),
      (''ckpt_path'', JStr ''ckpts''), (''training'', JBool True), (''test'', JBool True)]
     (Some ''ckpts/best.ckpt'')
   = ([Fit, SaveCheckpoint (JStr ''ckpts''), Test (JStr ''ckpts'')], None)"
  by (simp add: training_def required_keys_def dict_item_def dict_get_def test_phase_def
      resolve_ckpt_def)

section \<open>Properties of the minimal training loop\<close>

text \<open>
  Every epoch ends at its first statement: whatever losses the forward passes would yield,
  a loop of at least one epoch raises \<^verbatim>\<open>TypeError\<close> in epoch 0, with no loss recorded and
  no weights saved.
\<close>

lemma epoch_body_raises: "epoch_body e b st = (st, Some TypeError)"
  by (simp add: epoch_body_def call_bool_def)

lemma training_loop_raises:
  "per_epoch \<noteq> [] \<Longrightarrow> training_loop per_epoch = (init_loop, Some TypeError)"
  by (cases per_epoch) (simp_all add: training_loop_def epoch_body_raises)

text \<open>
  The statements after the first are never reached. Taken by themselves they compare the
  average loss of the epoch with the constant 1000000 assigned a few lines above, not with
  the loss of the epoch before.
\<close>

lemma epoch_rest_saved:
  "epoch_rest e b st = (st', None) \<Longrightarrow>
   saved_at st' = (if sum_list b / real (length b) < 1000000 then saved_at st @ [e] else saved_at st)"
  by (auto simp: epoch_rest_def Let_def split: if_splits)

text \<open>
  C2. The claim says that the weights are saved at the end of epoch \<open>e \<ge> 1\<close> exactly when
  the average loss of epoch \<open>e\<close> is strictly below that of epoch \<open>e - 1\<close>. On a run of two
  epochs whose average losses would be 2 and then 1, the claim has the weights saved at the
  end of epoch 1. The loop raises \<^verbatim>\<open>TypeError\<close> at \<^verbatim>\<open>unet.training()\<close>, the first statement
  of epoch 0: no loss is recorded and the weights are never saved.
\<close>

theorem training_loop_raises_before_saving:
  "training_loop [[2], [1]] = (\<lparr>losses = [], prev_loss = None, saved_at = []\<rparr>, Some TypeError)"
  by (simp add: training_loop_def epoch_body_def call_bool_def init_loop_def)

section \<open>Properties of the variance schedule\<close>

lemma length_cumprod_from: "length (cumprod_from acc xs) = length xs"
  by (induction xs arbitrary: acc) auto

lemma cumprod_from_nth:
  "i < length xs \<Longrightarrow> cumprod_from acc xs ! i = acc * prod_list (take (Suc i) xs)"
proof (induction xs arbitrary: acc i)
  case Nil
  then show ?case by simp
next
  case (Cons x xs)
  show ?case
  proof (cases i)
    case 0
    then show ?thesis by simp
  next
    case (Suc j)
    with Cons.prems have "j < length xs" by simp
    from Cons.IH [OF this, of "acc * x"] Suc show ?thesis by (simp add: mult.assoc)
  qed
qed

lemma cumprod_from_step:
  assumes "Suc i < length xs"
  shows "cumprod_from acc xs ! Suc i = cumprod_from acc xs ! i * xs ! Suc i"
proof -
  have "take (Suc (Suc i)) xs = take (Suc i) xs @ [xs ! Suc i]"
    using assms by (simp add: take_Suc_conv_app_nth)
  then show ?thesis
    using assms by (simp add: cumprod_from_nth)
qed

lemma cumprod_from_decreasing:
  "0 < acc \<Longrightarrow> \<forall>x \<in> set xs. 0 < x \<and> x < 1 \<Longrightarrow>
   sorted_wrt (\<lambda>a b. b < a) (acc # cumprod_from acc xs)"
proof (induction xs arbitrary: acc)
  case Nil
  then show ?case by simp
next
  case (Cons x xs)
  then have x: "0 < x" "x < 1" and rest: "\<forall>y \<in> set xs. 0 < y \<and> y < 1" by auto
  from x Cons.prems(1) have pos: "0 < acc * x" and lt: "acc * x < acc" by auto
  from Cons.IH [OF pos rest] have IH: "sorted_wrt (\<lambda>a b. b < a) (acc * x # cumprod_from (acc * x) xs)" .
  then have "\<forall>y \<in> set (cumprod_from (acc * x) xs). y < acc * x" by simp
  with lt have "\<forall>y \<in> set (acc * x # cumprod_from (acc * x) xs). y < acc" by auto
  with IH show ?case by simp
qed

lemma linspace_length: "length (linspace a b n) = n"
  by (simp add: linspace_def)

lemma linspace_nth:
  "i < n \<Longrightarrow> 2 \<le> n \<Longrightarrow> linspace a b n ! i = a + real i * ((b - a) / real (n - 1))"
  by (simp add: linspace_def)

lemma linspace_bounds:
  assumes "2 \<le> n" "a < b" "i < n"
  shows "a \<le> linspace a b n ! i" "linspace a b n ! i \<le> b"
proof -
  have n1: "0 < real (n - 1)" using assms by simp
  have i1: "real i \<le> real (n - 1)" using assms by simp
  have q: "0 \<le> real i / real (n - 1)" "real i / real (n - 1) \<le> 1"
    using n1 i1 by simp_all
  have eq: "linspace a b n ! i = a + (real i / real (n - 1)) * (b - a)"
    using assms by (simp add: linspace_nth)
  show "a \<le> linspace a b n ! i"
    using q(1) assms(2) by (simp add: eq)
  have "(real i / real (n - 1)) * (b - a) \<le> 1 * (b - a)"
    using q(2) assms(2) by (intro mult_right_mono) simp_all
  then show "linspace a b n ! i \<le> b" by (simp add: eq)
qed

text \<open>
  C5. For at least two steps and bounds \<open>0 < beta_start < beta_end < 1\<close>, the schedule has an
  \<open>alpha_bar\<close> of as many entries as there are steps, strictly decreasing, starting at
  \<open>1 - beta_start\<close>, and every \<open>beta\<close> lies strictly between 0 and 1. (Over the reals: the
  rounding of the floating-point products is not modelled.)
\<close>

theorem schedule_monotone:
  assumes "2 \<le> n" "0 < bs" "bs < be" "be < 1"
  shows "length (schedule_alpha_bar bs be n) = n
       \<and> sorted_wrt (\<lambda>a b. b < a) (schedule_alpha_bar bs be n)
       \<and> schedule_alpha_bar bs be n ! 0 = 1 - bs
       \<and> (\<forall>t < n. 0 < schedule_beta bs be n ! t \<and> schedule_beta bs be n ! t < 1)"
proof -
  let ?b = "linspace bs be n"
  let ?a = "map (\<lambda>x. 1 - x) ?b"
  have len: "length ?b = n" by (rule linspace_length)
  have bnd: "\<And>t. t < n \<Longrightarrow> 0 < ?b ! t \<and> ?b ! t < 1"
    using linspace_bounds [OF assms(1) assms(3)] assms(2,4) by force
  have a_rng: "\<forall>x \<in> set ?a. 0 < x \<and> x < 1"
  proof
    fix x assume "x \<in> set ?a"
    then obtain t where "t < n" "x = 1 - ?b ! t"
      using len by (auto simp: in_set_conv_nth)
    with bnd [of t] show "0 < x \<and> x < 1" by simp
  qed
  have ab: "schedule_alpha_bar bs be n = cumprod_from 1 ?a"
    by (simp add: schedule_alpha_bar_def schedule_alpha_def schedule_beta_def cumprod_def)
  have "sorted_wrt (\<lambda>a b. b < a) (1 # cumprod_from 1 ?a)"
    using cumprod_from_decreasing [of 1 ?a] a_rng by simp
  then have dec: "sorted_wrt (\<lambda>a b. b < a) (cumprod_from 1 ?a)" by simp
  have "0 < length ?a" using assms(1) len by simp
  then have "cumprod_from 1 ?a ! 0 = prod_list (take 1 ?a)"
    using cumprod_from_nth [of 0 ?a 1] by simp
  also have "take 1 ?a = [?a ! 0]"
    using \<open>0 < length ?a\<close> by (cases ?a) simp_all
  also have "?a ! 0 = 1 - bs"
    using assms(1) len by (simp add: linspace_nth)
  finally have first: "cumprod_from 1 ?a ! 0 = 1 - bs" by simp
  have b: "schedule_beta bs be n = ?b"
    by (simp add: schedule_beta_def)
  show ?thesis
    using len dec first bnd by (simp add: ab b length_cumprod_from)
qed

theorem schedule_monotone_witness:
  "length (schedule_alpha_bar (1 / 10) (1 / 5) 2) = 2
   \<and> sorted_wrt (\<lambda>a b. b < a) (schedule_alpha_bar (1 / 10) (1 / 5) 2)
   \<and> schedule_alpha_bar (1 / 10) (1 / 5) 2 ! 0 = 9 / 10
   \<and> 0 < schedule_beta (1 / 10) (1 / 5) 2 ! 1 \<and> schedule_beta (1 / 10) (1 / 5) 2 ! 1 < 1"
proof -
  have h: "(2::nat) \<le> 2" "(0::real) < 1 / 10" "(1 / 10 :: real) < 1 / 5" "(1 / 5 :: real) < 1"
    by simp_all
  from schedule_monotone [OF h] show ?thesis by simp
qed

text \<open>The schedule of the module itself (1000 values of beta from 0.0001 to 0.04) keeps every
  coefficient strictly between 0 and 1, so the square roots and the quotients of the diffusion
  steps are taken at positive arguments.\<close>

lemma prod_list_unit:
  "xs \<noteq> [] \<Longrightarrow> \<forall>x \<in> set xs. 0 < x \<and> x < 1 \<Longrightarrow> 0 < prod_list xs \<and> prod_list xs < (1::real)"
proof (induction xs)
  case Nil
  then show ?case by simp
next
  case (Cons x xs)
  then have x: "0 < x" "x < 1" by simp_all
  show ?case
  proof (cases "xs = []")
    case True
    with x show ?thesis by simp
  next
    case False
    with Cons have p: "0 < prod_list xs" "prod_list xs < 1" by simp_all
    have "x * prod_list xs < 1 * 1"
      using x p by (intro mult_strict_mono) simp_all
    with x p show ?thesis by simp
  qed
qed

lemma module_schedule_ranges:
  assumes t: "t < n_steps"
  shows "0 < beta ! t \<and> beta ! t < 1"
    and "0 < alpha ! t \<and> alpha ! t < 1"
    and "0 < alpha_bar ! t \<and> alpha_bar ! t < 1"
proof -
  let ?b = "linspace (1 / 10000) (4 / 100) n_steps"
  have n: "2 \<le> n_steps" by (simp add: n_steps_def)
  have b_eq: "beta = ?b" by (simp add: beta_def schedule_beta_def)
  have a_eq: "alpha = map (\<lambda>b. 1 - b) ?b"
    by (simp add: alpha_def schedule_alpha_def schedule_beta_def)
  have ab_eq: "alpha_bar = cumprod_from 1 alpha"
    by (simp add: alpha_bar_def alpha_def schedule_alpha_bar_def cumprod_def)
  have bnd: "0 < ?b ! s \<and> ?b ! s < 1" if "s < n_steps" for s
    using linspace_bounds [OF n, of "1 / 10000" "4 / 100" s] that by simp
  from bnd [OF t] show "0 < beta ! t \<and> beta ! t < 1" by (simp add: b_eq)
  have a_nth: "alpha ! s = 1 - ?b ! s" if "s < n_steps" for s
    using that by (simp add: a_eq linspace_length)
  from bnd [OF t] a_nth [OF t] show "0 < alpha ! t \<and> alpha ! t < 1" by simp
  have la: "length alpha = n_steps" by (simp add: a_eq linspace_length)
  have all: "\<forall>x \<in> set (take (Suc t) alpha). 0 < x \<and> x < 1"
  proof
    fix x assume "x \<in> set (take (Suc t) alpha)"
    then have "x \<in> set alpha" by (rule in_set_takeD)
    then obtain s where "s < n_steps" "x = alpha ! s"
      using la by (auto simp: in_set_conv_nth)
    with bnd [of s] a_nth [of s] show "0 < x \<and> x < 1" by simp
  qed
  have ne: "take (Suc t) alpha \<noteq> []" using t la by auto
  have "alpha_bar ! t = prod_list (take (Suc t) alpha)"
    using cumprod_from_nth [of t alpha 1] t la by (simp add: ab_eq)
  with prod_list_unit [OF ne all] show "0 < alpha_bar ! t \<and> alpha_bar ! t < 1" by simp
qed

section \<open>Properties of the diffusion steps\<close>

lemma py_bind_Inr [simp]: "py_bind (Inr v) k = k v"
  by (simp add: py_bind_def)

lemma py_bind_Inl [simp]: "py_bind (Inl e) k = Inl e"
  by (simp add: py_bind_def)

lemma draw_rows_shape: "map length (fst (draw_rows ms g)) = ms"
  by (induction ms arbitrary: g) (simp_all add: draw_def split_beta Let_def)

lemma draw_rows_pos: "snd (draw_rows ms g) = g\<lparr>pos := pos g + sum_list ms\<rparr>"
  by (induction ms arbitrary: g) (simp_all add: draw_def split_beta Let_def add.assoc)

lemma randn_like_shape: "map length (fst (randn_like x g)) = map length x"
  by (simp add: randn_like_def draw_rows_shape)

lemma randn_like_rng: "snd (randn_like x g) = g\<lparr>pos := pos g + sum_list (map length x)\<rparr>"
  by (simp add: randn_like_def draw_rows_pos)

lemma length_linspace_beta: "length beta = n_steps" "length alpha = n_steps" "length alpha_bar = n_steps"
  by (simp_all add: beta_def alpha_def alpha_bar_def schedule_beta_def schedule_alpha_def
      schedule_alpha_bar_def linspace_def cumprod_def length_cumprod_from)

lemma gather_in_range:
  assumes "\<forall>b < length t. 0 \<le> t ! b \<and> t ! b < int (length consts)"
  shows "gather consts t = Inr (map (\<lambda>i. consts ! nat i) t)"
  using assms by (auto simp: gather_def list_all_length)

lemma same_shapeI:
  "length x = length y \<Longrightarrow> (\<forall>b < length y. length (x ! b) = length (y ! b)) \<Longrightarrow> same_shape x y"
  by (auto simp: same_shape_def list_eq_iff_nth_eq)

lemma same_shape_length: "same_shape x y \<Longrightarrow> length x = length y"
  unfolding same_shape_def by (metis length_map)

lemma same_shape_row: "same_shape x y \<Longrightarrow> b < length x \<Longrightarrow> length (x ! b) = length (y ! b)"
  unfolding same_shape_def by (metis length_map nth_map)

lemma ew_nth:
  assumes "same_shape x y" "b < length x" "j < length (x ! b)"
  shows "ew f x y = Inr (map2 (map2 f) x y)" "map2 (map2 f) x y ! b ! j = f (x ! b ! j) (y ! b ! j)"
  using assms same_shape_length [OF assms(1)] same_shape_row [OF assms(1,2)]
  by (simp_all add: ew_def)

lemma ew_shape:
  assumes "same_shape x y"
  shows "same_shape (map2 (map2 f) x y) x"
proof (rule same_shapeI)
  show "length (map2 (map2 f) x y) = length x"
    using same_shape_length [OF assms] by simp
  show "\<forall>b<length x. length (map2 (map2 f) x y ! b) = length (x ! b)"
    using same_shape_length [OF assms] same_shape_row [OF assms] by simp
qed

lemma ew_col_shape: "length c = length x \<Longrightarrow> same_shape (map2 (\<lambda>a row. map (f a) row) c x) x"
  by (rule same_shapeI) auto

lemma same_shape_sym: "same_shape x y \<Longrightarrow> same_shape y x"
  by (simp add: same_shape_def)

lemma same_shape_trans: "same_shape x y \<Longrightarrow> same_shape y z \<Longrightarrow> same_shape x z"
  by (simp add: same_shape_def)

lemma draw_rows_nth:
  "b < length ms \<Longrightarrow> j < ms ! b \<Longrightarrow>
   fst (draw_rows ms g) ! b ! j = gauss g (pos g + sum_list (take b ms) + j)"
proof (induction ms arbitrary: g b)
  case Nil
  then show ?case by simp
next
  case (Cons m ms)
  show ?case
  proof (cases b)
    case 0
    with Cons.prems show ?thesis
      by (simp add: draw_def split_beta Let_def)
  next
    case (Suc b')
    with Cons.prems have "b' < length ms" "j < ms ! b'" by simp_all
    from Cons.IH [OF this, of "g\<lparr>pos := pos g + m\<rparr>"] Suc show ?thesis
      by (simp add: draw_def split_beta Let_def add.assoc)
  qed
qed

lemma randn_like_nth:
  "b < length x \<Longrightarrow> j < length (x ! b) \<Longrightarrow>
   fst (randn_like x g) ! b ! j = gauss g (pos g + sum_list (take b (map length x)) + j)"
  using draw_rows_nth [of b "map length x" j g] by (simp add: randn_like_def)

lemma ew_col_nth:
  assumes "length c = length x" "b < length x" "j < length (x ! b)"
  shows "map2 (\<lambda>a row. map (f a) row) c x ! b ! j = f (c ! b) (x ! b ! j)"
  using assms by simp

lemma same_shape_refl: "same_shape x x"
  by (simp add: same_shape_def)

lemma same_shape_randn_like: "same_shape (fst (randn_like x g)) x"
  by (simp add: same_shape_def randn_like_shape)

text \<open>
  C4. For a batch \<open>x0\<close> and one in-range timestep per sample, \<^verbatim>\<open>q_xt_x0\<close> returns the pair
  of the noisy batch and the noise: the noise has the shape of \<open>x0\<close> and consists of the
  next values of the generator (which is advanced past them), and every element of the
  noisy batch is \<open>sqrt (alpha_bar t) * x0 + sqrt (1 - alpha_bar t) * noise\<close> with \<open>alpha_bar\<close>
  gathered at the sample's timestep.
\<close>

theorem q_xt_x0_spec:
  assumes len: "length t = length x0"
    and rng: "\<forall>b < length t. 0 \<le> t ! b \<and> t ! b < int n_steps"
  shows "\<exists>x_t noise.
           q_xt_x0 x0 t g = Inr ((x_t, noise), g\<lparr>pos := pos g + sum_list (map length x0)\<rparr>)
         \<and> map length noise = map length x0
         \<and> map length x_t = map length x0
         \<and> (\<forall>b < length x0. \<forall>j < length (x0 ! b).
               noise ! b ! j = gauss g (pos g + sum_list (take b (map length x0)) + j)
             \<and> x_t ! b ! j =
                 sqrt (alpha_bar ! nat (t ! b)) * x0 ! b ! j
                 + sqrt (1 - alpha_bar ! nat (t ! b)) * noise ! b ! j)"
proof -
  define abt where "abt = map (\<lambda>i. alpha_bar ! nat i) t"
  define noise where "noise = fst (randn_like x0 g)"
  define mean where "mean = map2 (\<lambda>a row. map ((*) a) row) (map sqrt abt) x0"
  define sn where "sn = map2 (\<lambda>a row. map ((*) a) row) (map (\<lambda>a. sqrt (1 - a)) abt) noise"
  define x_t where "x_t = map2 (map2 (+)) mean sn"
  have g1: "gather alpha_bar t = Inr abt"
    unfolding abt_def using rng by (intro gather_in_range) (simp add: length_linspace_beta)
  have labt: "length abt = length x0" by (simp add: abt_def len)
  have sh_noise: "same_shape noise x0"
    unfolding noise_def by (rule same_shape_randn_like)
  have lnoise: "length noise = length x0" by (rule same_shape_length [OF sh_noise])
  have sh_mean: "same_shape mean x0"
    unfolding mean_def by (rule ew_col_shape) (simp add: labt)
  have sh_sn: "same_shape sn x0"
    unfolding sn_def
    by (rule same_shape_trans [OF ew_col_shape sh_noise]) (simp add: labt lnoise)
  have sh_ms: "same_shape mean sn"
    by (rule same_shape_trans [OF sh_mean same_shape_sym [OF sh_sn]])
  have sh_xt: "same_shape x_t x0"
    unfolding x_t_def by (rule same_shape_trans [OF ew_shape [OF sh_ms] sh_mean])
  have run: "q_xt_x0 x0 t g = Inr ((x_t, noise), snd (randn_like x0 g))"
    unfolding q_xt_x0_def
    by (simp add: g1 ew_col_def labt lnoise split_beta Let_def ew_def sh_ms
        mean_def [symmetric] noise_def [symmetric] sn_def [symmetric] x_t_def [symmetric])
  have elems: "noise ! b ! j = gauss g (pos g + sum_list (take b (map length x0)) + j)
             \<and> x_t ! b ! j =
                 sqrt (alpha_bar ! nat (t ! b)) * x0 ! b ! j
                 + sqrt (1 - alpha_bar ! nat (t ! b)) * noise ! b ! j"
    if b: "b < length x0" and j: "j < length (x0 ! b)" for b j
  proof -
    have jn: "j < length (noise ! b)"
      using same_shape_row [OF sh_noise] b j lnoise by simp
    have jm: "j < length (mean ! b)" "j < length (sn ! b)"
      using same_shape_row [OF sh_mean] same_shape_row [OF sh_sn]
        same_shape_length [OF sh_mean] same_shape_length [OF sh_sn] b j by simp_all
    have bm: "b < length mean" "b < length sn" "b < length t"
      using same_shape_length [OF sh_mean] same_shape_length [OF sh_sn] b len by simp_all
    have m: "mean ! b ! j = sqrt (abt ! b) * x0 ! b ! j"
      unfolding mean_def using b j labt by simp
    have s: "sn ! b ! j = sqrt (1 - abt ! b) * noise ! b ! j"
      unfolding sn_def using b jn labt lnoise by simp
    have x: "x_t ! b ! j = mean ! b ! j + sn ! b ! j"
      unfolding x_t_def using bm jm by simp
    have a: "abt ! b = alpha_bar ! nat (t ! b)"
      unfolding abt_def using bm by simp
    show ?thesis
      using m s x a randn_like_nth [OF b j, of g] by (simp add: noise_def)
  qed
  have shapes: "map length noise = map length x0" "map length x_t = map length x0"
    using sh_noise sh_xt by (simp_all add: same_shape_def)
  show ?thesis
    using run shapes elems by (auto simp: randn_like_rng)
qed

lemma p_xt_elementwise:
  assumes shp: "map length noise = map length xt"
    and len: "length t = length xt"
    and rng: "\<forall>b < length t. 0 \<le> t ! b \<and> t ! b < int n_steps"
  shows "\<exists>xt_1 z.
           p_xt xt noise t g = Inr (xt_1, g\<lparr>pos := pos g + sum_list (map length xt)\<rparr>)
         \<and> map length z = map length xt
         \<and> map length xt_1 = map length xt
         \<and> (\<forall>b < length xt. \<forall>j < length (xt ! b).
               z ! b ! j = gauss g (pos g + sum_list (take b (map length xt)) + j)
             \<and> xt_1 ! b ! j =
                 (xt ! b ! j
                    - (1 - alpha ! nat (t ! b)) / sqrt (1 - alpha_bar ! nat (t ! b)) * noise ! b ! j)
                   / sqrt (alpha ! nat (t ! b))
                 + sqrt (beta ! nat (t ! b)) * z ! b ! j)"
proof -
  define a_t where "a_t = map (\<lambda>i. alpha ! nat i) t"
  define ab_t where "ab_t = map (\<lambda>i. alpha_bar ! nat i) t"
  define b_t where "b_t = map (\<lambda>i. beta ! nat i) t"
  define eps where "eps = map2 (\<lambda>a ab. (1 - a) / sqrt (1 - ab)) a_t ab_t"
  define en where "en = map2 (\<lambda>a row. map ((*) a) row) eps noise"
  define num where "num = map2 (map2 (-)) xt en"
  define mu where "mu = map2 (\<lambda>a row. map (\<lambda>v. v / a) row) (map sqrt a_t) num"
  define z where "z = fst (randn_like xt g)"
  define zs where "zs = map2 (\<lambda>s row. map (\<lambda>v. v * s) row) (map sqrt b_t) z"
  define xt_1 where "xt_1 = map2 (map2 (+)) mu zs"
  have g1: "gather alpha t = Inr a_t" "gather alpha_bar t = Inr ab_t" "gather beta t = Inr b_t"
    unfolding a_t_def ab_t_def b_t_def using rng
    by (intro gather_in_range; simp add: length_linspace_beta)+
  have sh_noise: "same_shape noise xt" using shp by (simp add: same_shape_def)
  have lnoise: "length noise = length xt" by (rule same_shape_length [OF sh_noise])
  have lcol: "length a_t = length xt" "length ab_t = length xt" "length b_t = length xt"
    "length eps = length xt"
    by (simp_all add: a_t_def ab_t_def b_t_def eps_def len)
  have sh_en: "same_shape en xt"
    unfolding en_def
    by (rule same_shape_trans [OF ew_col_shape sh_noise]) (simp add: lcol lnoise)
  have sh_xe: "same_shape xt en" by (rule same_shape_sym [OF sh_en])
  have sh_num: "same_shape num xt"
    unfolding num_def by (rule ew_shape [OF sh_xe])
  have lnum: "length num = length xt" by (rule same_shape_length [OF sh_num])
  have sh_mu: "same_shape mu xt"
    unfolding mu_def
    by (rule same_shape_trans [OF ew_col_shape sh_num]) (simp add: lcol lnum)
  have sh_z: "same_shape z xt"
    unfolding z_def by (rule same_shape_randn_like)
  have lz: "length z = length xt" by (rule same_shape_length [OF sh_z])
  have sh_zs: "same_shape zs xt"
    unfolding zs_def
    by (rule same_shape_trans [OF ew_col_shape sh_z]) (simp add: lcol lz)
  have sh_mz: "same_shape mu zs"
    by (rule same_shape_trans [OF sh_mu same_shape_sym [OF sh_zs]])
  have sh_x1: "same_shape xt_1 xt"
    unfolding xt_1_def by (rule same_shape_trans [OF ew_shape [OF sh_mz] sh_mu])
  have run: "p_xt xt noise t g = Inr (xt_1, snd (randn_like xt g))"
    unfolding p_xt_def
    by (simp add: g1 Let_def split_beta ew_col_def ew_def lcol lnoise lnum lz sh_xe sh_mz
        eps_def [symmetric] en_def [symmetric] num_def [symmetric] mu_def [symmetric]
        z_def [symmetric] zs_def [symmetric] xt_1_def [symmetric])
  have elems: "z ! b ! j = gauss g (pos g + sum_list (take b (map length xt)) + j)
             \<and> xt_1 ! b ! j =
                 (xt ! b ! j
                    - (1 - alpha ! nat (t ! b)) / sqrt (1 - alpha_bar ! nat (t ! b)) * noise ! b ! j)
                   / sqrt (alpha ! nat (t ! b))
                 + sqrt (beta ! nat (t ! b)) * z ! b ! j"
    if b: "b < length xt" and j: "j < length (xt ! b)" for b j
  proof -
    have rows: "length (noise ! b) = length (xt ! b)" "length (en ! b) = length (xt ! b)"
      "length (num ! b) = length (xt ! b)" "length (mu ! b) = length (xt ! b)"
      "length (z ! b) = length (xt ! b)" "length (zs ! b) = length (xt ! b)"
      using same_shape_row [OF sh_noise] same_shape_row [OF sh_en] same_shape_row [OF sh_num]
        same_shape_row [OF sh_mu] same_shape_row [OF sh_z] same_shape_row [OF sh_zs]
        same_shape_length [OF sh_en] same_shape_length [OF sh_mu] same_shape_length [OF sh_zs]
        lnoise lnum lz b
      by simp_all
    have lens: "length en = length xt" "length mu = length xt" "length zs = length xt"
      using same_shape_length [OF sh_en] same_shape_length [OF sh_mu] same_shape_length [OF sh_zs]
      by simp_all
    have b_t': "b < length t" using b len by simp
    have e: "eps ! b = (1 - alpha ! nat (t ! b)) / sqrt (1 - alpha_bar ! nat (t ! b))"
      unfolding eps_def a_t_def ab_t_def using b_t' by simp
    have 1: "en ! b ! j = eps ! b * noise ! b ! j"
      unfolding en_def using b j lcol lnoise rows by simp
    have 2: "num ! b ! j = xt ! b ! j - en ! b ! j"
      unfolding num_def using b j lens rows by simp
    have 3: "mu ! b ! j = num ! b ! j / sqrt (alpha ! nat (t ! b))"
      unfolding mu_def a_t_def using b j b_t' len lnum rows by simp
    have 4: "zs ! b ! j = z ! b ! j * sqrt (beta ! nat (t ! b))"
      unfolding zs_def b_t_def using b j b_t' len lz rows by simp
    have 5: "xt_1 ! b ! j = mu ! b ! j + zs ! b ! j"
      unfolding xt_1_def using b j lens rows by simp
    show ?thesis
      using e 1 2 3 4 5 randn_like_nth [OF b j, of g] by (simp add: z_def)
  qed
  have shapes: "map length z = map length xt" "map length xt_1 = map length xt"
    using sh_z sh_x1 by (simp_all add: same_shape_def)
  show ?thesis
    using run shapes elems by (auto simp: randn_like_rng)
qed

text \<open>
  C3. For \<open>xt\<close> and a predicted noise of the same shape and one in-range timestep per
  sample, \<^verbatim>\<open>p_xt\<close> returns \<open>mu + sqrt (beta t) * z\<close> elementwise, where
  \<open>mu = (xt - eps_coef * noise) / sqrt (alpha t)\<close>, \<open>eps_coef = (1 - alpha t) / sqrt (1 - alpha_bar t)\<close>,
  the coefficients are gathered at the sample's timestep, and \<open>z\<close> has the shape of \<open>xt\<close> and
  consists of the next values of the generator, which every call advances past them. No
  timestep is treated apart: the draw is added at \<open>t = 0\<close> as well.
\<close>

theorem p_xt_spec:
  assumes shp: "map length noise = map length xt"
    and len: "length t = length xt"
    and rng: "\<forall>b < length t. 0 \<le> t ! b \<and> t ! b < int n_steps"
  shows "\<exists>xt_1 z.
           p_xt xt noise t g = Inr (xt_1, g\<lparr>pos := pos g + sum_list (map length xt)\<rparr>)
         \<and> map length z = map length xt
         \<and> map length xt_1 = map length xt
         \<and> (\<forall>b < length xt. \<forall>j < length (xt ! b).
               z ! b ! j = gauss g (pos g + sum_list (take b (map length xt)) + j)
             \<and> xt_1 ! b ! j =
                 (xt ! b ! j
                    - (1 - alpha ! nat (t ! b)) / sqrt (1 - alpha_bar ! nat (t ! b)) * noise ! b ! j)
                   / sqrt (alpha ! nat (t ! b))
                 + sqrt (beta ! nat (t ! b)) * z ! b ! j)"
  using assms by (rule p_xt_elementwise)

theorem p_xt_spec_witness:
  "map length [[2::real]] = map length [[1::real]] \<and> length [0::int] = length [[1::real]]
   \<and> (\<exists>xt_1. p_xt [[1]] [[2]] [0] \<lparr>gauss = (\<lambda>k. 3), raw = (\<lambda>k. 0), pos = 0\<rparr>
                = Inr (xt_1, \<lparr>gauss = (\<lambda>k. 3), raw = (\<lambda>k. 0), pos = 1\<rparr>)
         \<and> xt_1 ! 0 ! 0 =
             (1 - (1 - alpha ! 0) / sqrt (1 - alpha_bar ! 0) * 2) / sqrt (alpha ! 0)
             + sqrt (beta ! 0) * 3)"
proof -
  let ?g = "\<lparr>gauss = (\<lambda>k. 3::real), raw = (\<lambda>k. 0::nat), pos = 0\<rparr>"
  have h1: "map length [[2::real]] = map length [[1::real]]" by simp
  have h2: "length [0::int] = length [[1::real]]" by simp
  have h3: "\<forall>b < length [0::int]. 0 \<le> [0::int] ! b \<and> [0::int] ! b < int n_steps"
    by (simp add: n_steps_def)
  from p_xt_spec [OF h1 h2 h3, of ?g]
  obtain xt_1 z where
    run: "p_xt [[1]] [[2]] [0] ?g = Inr (xt_1, ?g\<lparr>pos := pos ?g + sum_list (map length [[1::real]])\<rparr>)"
    and el: "\<forall>b < length [[1::real]]. \<forall>j < length ([[1::real]] ! b).
               z ! b ! j = gauss ?g (pos ?g + sum_list (take b (map length [[1::real]])) + j)
             \<and> xt_1 ! b ! j =
                 ([[1::real]] ! b ! j
                    - (1 - alpha ! nat ([0::int] ! b)) / sqrt (1 - alpha_bar ! nat ([0::int] ! b)) * [[2::real]] ! b ! j)
                   / sqrt (alpha ! nat ([0::int] ! b))
                 + sqrt (beta ! nat ([0::int] ! b)) * z ! b ! j"
    by blast
  from el have "z ! 0 ! 0 = 3 \<and> xt_1 ! 0 ! 0 =
             (1 - (1 - alpha ! 0) / sqrt (1 - alpha_bar ! 0) * 2) / sqrt (alpha ! 0)
             + sqrt (beta ! 0) * z ! 0 ! 0"
    by simp
  with run h1 h2 show ?thesis by simp
qed

theorem q_xt_x0_spec_witness:
  "length [0::int] = length [[1::real]]
   \<and> (\<exists>x_t noise. q_xt_x0 [[1]] [0] \<lparr>gauss = (\<lambda>k. 3), raw = (\<lambda>k. 0), pos = 0\<rparr>
                = Inr ((x_t, noise), \<lparr>gauss = (\<lambda>k. 3), raw = (\<lambda>k. 0), pos = 1\<rparr>)
         \<and> noise ! 0 ! 0 = 3
         \<and> x_t ! 0 ! 0 = sqrt (alpha_bar ! 0) * 1 + sqrt (1 - alpha_bar ! 0) * 3)"
proof -
  let ?g = "\<lparr>gauss = (\<lambda>k. 3::real), raw = (\<lambda>k. 0::nat), pos = 0\<rparr>"
  have h2: "length [0::int] = length [[1::real]]" by simp
  have h3: "\<forall>b < length [0::int]. 0 \<le> [0::int] ! b \<and> [0::int] ! b < int n_steps"
    by (simp add: n_steps_def)
  from q_xt_x0_spec [OF h2 h3, of ?g]
  obtain x_t noise where
    run: "q_xt_x0 [[1]] [0] ?g = Inr ((x_t, noise), ?g\<lparr>pos := pos ?g + sum_list (map length [[1::real]])\<rparr>)"
    and el: "\<forall>b < length [[1::real]]. \<forall>j < length ([[1::real]] ! b).
               noise ! b ! j = gauss ?g (pos ?g + sum_list (take b (map length [[1::real]])) + j)
             \<and> x_t ! b ! j =
                 sqrt (alpha_bar ! nat ([0::int] ! b)) * [[1::real]] ! b ! j
                 + sqrt (1 - alpha_bar ! nat ([0::int] ! b)) * noise ! b ! j"
    by blast
  from el have "noise ! 0 ! 0 = 3 \<and> x_t ! 0 ! 0 =
      sqrt (alpha_bar ! 0) * 1 + sqrt (1 - alpha_bar ! 0) * noise ! 0 ! 0"
    by simp
  with run h2 show ?thesis by simp
qed

section \<open>Properties of the decay of the moving average\<close>

lemma float_ovf_gt: "1 < float_ovf"
proof -
  have "(2::real) ^ 1024 = 2 ^ 970 * 2 ^ 54" by (simp add: power_add [symmetric])
  then have e: "float_ovf = 2 ^ 970 * (2 ^ 54 - 1)" by (simp add: float_ovf_def algebra_simps)
  have "(1::real) * 1 < 2 ^ 970 * (2 ^ 54 - 1)"
    by (rule mult_le_less_imp_less) simp_all
  then show ?thesis by (simp add: e)
qed

lemma float_ovf_pos: "0 < float_ovf"
  using float_ovf_gt by simp

lemma get_decay_overflow:
  assumes "float_ovf \<le> of_int (max 0 (s - update_after_step c - 1))"
  shows "get_decay c s = Inl OverflowError"
proof -
  have "(0::real) \<le> of_int (max 0 (s - update_after_step c - 1))" by simp
  then have "\<bar>of_int (max 0 (s - update_after_step c - 1)) :: real\<bar>
             = of_int (max 0 (s - update_after_step c - 1))" by (rule abs_of_nonneg)
  with assms show ?thesis
    by (simp add: get_decay_def Let_def int_to_float_def)
qed

lemma int_to_float_ok:
  "0 \<le> i \<Longrightarrow> of_int i < float_ovf \<Longrightarrow> int_to_float i = Inr (of_int i)"
  by (simp add: int_to_float_def)

lemma get_decay_zero_division:
  assumes "of_int (max 0 (s - update_after_step c - 1)) < float_ovf" "inv_gamma c = 0"
  shows "get_decay c s = Inl ZeroDivisionError"
  using assms by (simp add: get_decay_def Let_def int_to_float_ok float_div_def)

lemma float_pow_one: "float_pow (Fin 1) w = Inr (PyFloat (Fin 1))"
  using float_ovf_gt by (simp add: float_pow_def)

lemma get_decay_warmup:
  assumes "inv_gamma c \<noteq> 0" "max 0 (s - update_after_step c - 1) \<le> 0"
  shows "get_decay c s = Inr 0"
proof -
  have st: "max 0 (s - update_after_step c - 1) = 0" using assms(2) by simp
  have i: "int_to_float 0 = Inr 0" using float_ovf_pos by (simp add: int_to_float_def)
  have d: "float_div 0 (inv_gamma c) = Inr (Fin 0)"
    using assms(1) float_ovf_pos by (simp add: float_div_def)
  show ?thesis
    by (simp add: get_decay_def st i d float_pow_one)
qed

lemma float_div_fin:
  assumes "b \<noteq> 0" "\<bar>a / b\<bar> < float_ovf"
  shows "float_div a b = Inr (Fin (a / b))"
proof -
  from assms(2) have "a / b < float_ovf" "- float_ovf < a / b"
    by (simp_all only: abs_less_iff minus_less_iff)
  with assms(1) show ?thesis by (simp add: float_div_def)
qed

lemma get_decay_formula:
  fixes c :: ema_config and s :: int
  defines "st \<equiv> max 0 (s - update_after_step c - 1)"
  defines "b \<equiv> 1 + of_int st / inv_gamma c"
  assumes st: "0 < st" "of_int st < float_ovf"
    and g: "inv_gamma c \<noteq> 0" "\<bar>of_int st / inv_gamma c\<bar> < float_ovf"
    and b: "0 < b \<or> (b = 0 \<and> power c < 0)"
    and r: "b powr (- power c) < float_ovf"
  shows "get_decay c s = Inr (clamp (1 - b powr (- power c)) (min_value c) (max_value c))"
proof -
  have i: "int_to_float st = Inr (of_int st)" using st by (simp add: int_to_float_ok)
  have d: "float_div (of_int st) (inv_gamma c) = Inr (Fin (of_int st / inv_gamma c))"
    using g by (rule float_div_fin)
  have p: "float_pow (Fin b) (- power c) = Inr (PyFloat (Fin (b powr (- power c))))"
  proof (cases "power c = 0")
    case True
    with b have "0 < b" by simp
    with True show ?thesis by (simp add: float_pow_def)
  next
    case False
    from b show ?thesis
    proof
      assume "0 < b"
      with False r show ?thesis by (simp add: float_pow_def)
    next
      assume "b = 0 \<and> power c < 0"
      then show ?thesis by (simp add: float_pow_def)
    qed
  qed
  show ?thesis
    using st(1) unfolding get_decay_def Let_def st_def [symmetric]
    by (simp add: i d b_def [symmetric] p clamp_def)
qed

lemma neg_powr_int:
  fixes x :: real
  assumes "x < 0"
  shows "(if odd k then - (\<bar>x\<bar> powr of_int k) else \<bar>x\<bar> powr of_int k) = power_int x (k::int)"
proof -
  have a: "0 < \<bar>x\<bar>" using assms by simp
  have "\<bar>x\<bar> powr of_int k = power_int \<bar>x\<bar> k"
    using a by (intro powr_real_of_int') simp_all
  moreover have "x = - \<bar>x\<bar>" using assms by simp
  then have "power_int x k = (if even k then power_int \<bar>x\<bar> k else - power_int \<bar>x\<bar> k)"
    by (metis power_int_minus_left)
  ultimately show ?thesis by simp
qed

lemma abs_powr_int:
  fixes x :: real
  assumes "x < 0"
  shows "\<bar>x\<bar> powr of_int k = \<bar>power_int x (k::int)\<bar>"
proof -
  have "\<bar>x\<bar> powr of_int k = power_int \<bar>x\<bar> k"
    using assms by (intro powr_real_of_int') simp_all
  then show ?thesis by (simp add: power_int_abs)
qed

lemma get_decay_formula_int:
  fixes c :: ema_config and s k :: int
  defines "st \<equiv> max 0 (s - update_after_step c - 1)"
  defines "b \<equiv> 1 + of_int st / inv_gamma c"
  assumes st: "0 < st" "of_int st < float_ovf"
    and g: "inv_gamma c \<noteq> 0" "\<bar>of_int st / inv_gamma c\<bar> < float_ovf"
    and b: "b \<le> 0" "b = 0 \<longrightarrow> 0 \<le> k"
    and k: "- power c = of_int k"
    and r: "\<bar>power_int b k\<bar> < float_ovf"
  shows "get_decay c s = Inr (clamp (1 - power_int b k) (min_value c) (max_value c))"
proof -
  have i: "int_to_float st = Inr (of_int st)" using st by (simp add: int_to_float_ok)
  have d: "float_div (of_int st) (inv_gamma c) = Inr (Fin (of_int st / inv_gamma c))"
    using g by (rule float_div_fin)
  have p: "float_pow (Fin b) (- power c) = Inr (PyFloat (Fin (power_int b k)))"
  proof (cases "k = 0")
    case True
    then show ?thesis by (simp add: float_pow_def k)
  next
    case k0: False
    show ?thesis
    proof (cases "b = 0")
      case True
      with b(2) k0 have "0 < k" by simp
      with True show ?thesis by (simp add: float_pow_def k)
    next
      case False
      with b(1) have neg: "b < 0" by simp
      have int: "is_integer (of_int k)" by (simp add: is_integer_def)
      from r have "\<not> float_ovf \<le> \<bar>b\<bar> powr of_int k"
        by (simp add: abs_powr_int [OF neg])
      with neg k0 int neg_powr_int [OF neg, of k] show ?thesis
        by (simp add: float_pow_def k)
    qed
  qed
  show ?thesis
    using st(1) unfolding get_decay_def Let_def st_def [symmetric]
    by (simp add: i d b_def [symmetric] p clamp_def)
qed

lemma powr_neg_le_one: "1 \<le> x \<Longrightarrow> w \<le> 0 \<Longrightarrow> x powr w \<le> (1::real)"
  using powr_mono [of w 0 x] by simp

lemma default_decay:
  assumes "of_int s - 1 < float_ovf"
  shows "get_decay default_config s =
     Inr (if s \<le> 1 then 0 else max 0 (min (1 - of_int s powr (- (2 / 3))) (9999 / 10000)))"
proof (cases "s \<le> 1")
  case True
  then show ?thesis
    using get_decay_warmup [of default_config s] by (simp add: default_config_def)
next
  case False
  then have m: "max 0 (s - 1) = s - 1" by simp
  have e: "1 + (of_int s - 1) = (of_int s :: real)" by simp
  have "(of_int s :: real) powr (- (2 / 3)) \<le> 1"
    using False by (intro powr_neg_le_one) simp_all
  then have r: "(of_int s :: real) powr (- (2 / 3)) < float_ovf"
    using float_ovf_gt by simp
  have a: "\<bar>of_int s - 1 :: real\<bar> = of_int s - 1" using False by simp
  show ?thesis
    using False assms r get_decay_formula [where c = default_config and s = s]
    by (simp add: default_config_def clamp_def m e a)
qed

lemma default_decay_mono:
  assumes "s \<le> s'"
  shows "(if s \<le> 1 then 0 else max 0 (min (1 - of_int s powr (- (2 / 3))) (9999 / 10000)))
       \<le> (if s' \<le> 1 then 0 else max 0 (min (1 - of_int s' powr (- (2 / 3))) (9999 / 10000 :: real)))"
proof (cases "s \<le> 1")
  case True
  then show ?thesis by simp
next
  case False
  then have s: "(0::real) < of_int s" and s': "\<not> s' \<le> 1" using assms by simp_all
  have "(of_int s' :: real) powr (- (2 / 3)) \<le> of_int s powr (- (2 / 3))"
    using s assms by (intro powr_mono2') simp_all
  then show ?thesis using False s' by (simp add: max_def min_def)
qed


text \<open>
  C7, as the code has it. Let \<open>st = max 0 (s - update_after_step - 1)\<close> and
  \<open>b = 1 + st / inv_gamma\<close>. \<^verbatim>\<open>get_decay\<close> raises \<^verbatim>\<open>OverflowError\<close> when \<open>st\<close> does not fit a
  float, and otherwise \<^verbatim>\<open>ZeroDivisionError\<close> when \<open>inv_gamma\<close> is zero, whatever \<open>st\<close> is: the
  quotient is evaluated before the test of \<open>st\<close>. For a nonzero \<open>inv_gamma\<close> it returns 0
  whenever \<open>st \<le> 0\<close>. For \<open>st > 0\<close> that fits, a nonzero \<open>inv_gamma\<close> and a quotient that fits,
  it returns the clamp of \<open>1 - b ^ (- power)\<close> to \<open>[min_value, max_value]\<close> whenever that power
  is a real number that fits: for a positive \<open>b\<close> (and for \<open>b = 0\<close> with a negative \<open>power\<close>)
  the power is \<open>b powr (- power)\<close>; for a negative \<open>b\<close> and an integer \<open>- power = k\<close> (and for
  \<open>b = 0\<close> with \<open>k \<ge> 0\<close>) it is \<open>b powi k\<close>. With the defaults, \<^verbatim>\<open>get_decay(0)\<close> is 0, and on the
  arguments whose \<open>st\<close> fits a float \<^verbatim>\<open>get_decay\<close> is non-decreasing and never exceeds 0.9999;
  on the larger ones it raises \<^verbatim>\<open>OverflowError\<close>.
\<close>

theorem get_decay_spec:
  fixes c :: ema_config and s s1 s2 k :: int
  defines "st \<equiv> max 0 (s - update_after_step c - 1)"
  defines "b \<equiv> 1 + of_int st / inv_gamma c"
  shows
  "(float_ovf \<le> of_int st \<longrightarrow> get_decay c s = Inl OverflowError)
 \<and> (of_int st < float_ovf \<and> inv_gamma c = 0 \<longrightarrow> get_decay c s = Inl ZeroDivisionError)
 \<and> (st \<le> 0 \<and> inv_gamma c \<noteq> 0 \<longrightarrow> get_decay c s = Inr 0)
 \<and> (0 < st \<and> of_int st < float_ovf \<and> inv_gamma c \<noteq> 0 \<and> \<bar>of_int st / inv_gamma c\<bar> < float_ovf
      \<and> (0 < b \<or> b = 0 \<and> power c < 0) \<and> b powr (- power c) < float_ovf \<longrightarrow>
      get_decay c s = Inr (clamp (1 - b powr (- power c)) (min_value c) (max_value c)))
 \<and> (0 < st \<and> of_int st < float_ovf \<and> inv_gamma c \<noteq> 0 \<and> \<bar>of_int st / inv_gamma c\<bar> < float_ovf
      \<and> b \<le> 0 \<and> (b = 0 \<longrightarrow> 0 \<le> k) \<and> - power c = of_int k \<and> \<bar>power_int b k\<bar> < float_ovf \<longrightarrow>
      get_decay c s = Inr (clamp (1 - power_int b k) (min_value c) (max_value c)))
 \<and> get_decay default_config 0 = Inr 0
 \<and> (s1 \<le> s2 \<and> of_int s2 - 1 < float_ovf \<longrightarrow>
      (\<exists>d1 d2. get_decay default_config s1 = Inr d1 \<and> get_decay default_config s2 = Inr d2
         \<and> d1 \<le> d2 \<and> d2 \<le> 9999 / 10000))
 \<and> (float_ovf \<le> of_int s2 - 1 \<longrightarrow> get_decay default_config s2 = Inl OverflowError)"
proof (intro conjI impI)
  assume "float_ovf \<le> of_int st"
  then show "get_decay c s = Inl OverflowError"
    unfolding st_def by (rule get_decay_overflow)
next
  assume "of_int st < float_ovf \<and> inv_gamma c = 0"
  then show "get_decay c s = Inl ZeroDivisionError"
    unfolding st_def by (intro get_decay_zero_division) simp_all
next
  assume "st \<le> 0 \<and> inv_gamma c \<noteq> 0"
  then show "get_decay c s = Inr 0"
    unfolding st_def by (intro get_decay_warmup) simp_all
next
  assume "0 < st \<and> of_int st < float_ovf \<and> inv_gamma c \<noteq> 0 \<and> \<bar>of_int st / inv_gamma c\<bar> < float_ovf
      \<and> (0 < b \<or> b = 0 \<and> power c < 0) \<and> b powr (- power c) < float_ovf"
  then show "get_decay c s = Inr (clamp (1 - b powr (- power c)) (min_value c) (max_value c))"
    unfolding st_def b_def by (intro get_decay_formula) simp_all
next
  assume "0 < st \<and> of_int st < float_ovf \<and> inv_gamma c \<noteq> 0 \<and> \<bar>of_int st / inv_gamma c\<bar> < float_ovf
      \<and> b \<le> 0 \<and> (b = 0 \<longrightarrow> 0 \<le> k) \<and> - power c = of_int k \<and> \<bar>power_int b k\<bar> < float_ovf"
  then have "0 < st" "of_int st < float_ovf" "inv_gamma c \<noteq> 0"
    "\<bar>of_int st / inv_gamma c\<bar> < float_ovf" "b \<le> 0" "b = 0 \<longrightarrow> 0 \<le> k"
    "- power c = of_int k" "\<bar>power_int b k\<bar> < float_ovf"
    by blast+
  then show "get_decay c s = Inr (clamp (1 - power_int b k) (min_value c) (max_value c))"
    unfolding st_def b_def by (rule get_decay_formula_int)
next
  have "(of_int 0 :: real) - 1 < float_ovf" using float_ovf_pos by simp
  from default_decay [OF this] show "get_decay default_config 0 = Inr 0" by simp
next
  assume a: "s1 \<le> s2 \<and> of_int s2 - 1 < float_ovf"
  then have le: "s1 \<le> s2" and r2: "of_int s2 - 1 < float_ovf" by simp_all
  from le have "(of_int s1 :: real) - 1 \<le> of_int s2 - 1" by simp
  with r2 have r1: "of_int s1 - 1 < float_ovf" by simp
  have "(if s2 \<le> 1 then 0 else max 0 (min (1 - of_int s2 powr (- (2 / 3))) (9999 / 10000 :: real)))
        \<le> 9999 / 10000" by (auto simp: max_def min_def)
  with default_decay_mono [OF le]
  show "\<exists>d1 d2. get_decay default_config s1 = Inr d1 \<and> get_decay default_config s2 = Inr d2
         \<and> d1 \<le> d2 \<and> d2 \<le> 9999 / 10000"
    unfolding default_decay [OF r1] default_decay [OF r2] by blast
next
  assume a: "float_ovf \<le> of_int s2 - 1"
  with float_ovf_pos have "1 < s2" by (simp add: less_le_trans [of 0 float_ovf] flip: of_int_less_iff)
  then have "max 0 (s2 - update_after_step default_config - 1) = s2 - 1"
    by (simp add: default_config_def)
  with a show "get_decay default_config s2 = Inl OverflowError"
    by (intro get_decay_overflow) simp
qed

lemma ovf_bound: "(10 :: real) < float_ovf"
proof -
  have "(2::real) ^ 1024 = 2 ^ 970 * 2 ^ 54" by (simp add: power_add [symmetric])
  then have e: "float_ovf = 2 ^ 970 * (2 ^ 54 - 1)" by (simp add: float_ovf_def algebra_simps)
  have "(1::real) * 10 < 2 ^ 970 * (2 ^ 54 - 1)"
    by (rule mult_le_less_imp_less) simp_all
  then show ?thesis by (simp add: e)
qed

text \<open>
  The claim as stated, "returns 0.0 whenever \<open>step \<le> 0\<close>, and otherwise returns the clamp",
  with the defaults "non-decreasing in its argument", fails in each of these calls. With
  \<open>inv_gamma = 0\<close> the call raises although \<open>step\<close> is 0. With \<open>step = 1\<close>: \<open>inv_gamma = -1\<close>
  makes the base 0, which a negative exponent cannot take; \<open>inv_gamma = -0.1\<close> makes it -9,
  whose power \<open>2/3\<close> is complex, and \<^verbatim>\<open>min\<close> cannot compare it; \<open>power = -1024\<close> asks for
  \<open>2 ^ 1024\<close>, which does not fit a float. With the defaults, the argument \<open>2 ^ 1024 + 1\<close>
  does not convert to a float. With \<open>step = 2\<close> and \<open>inv_gamma = 2 ^ -1023\<close> the quotient is
  infinite: the call returns \<open>max_value\<close>, where the formula of the claim gives at most 3/4.
\<close>

theorem get_decay_outside_the_formula:
  "get_decay (default_config\<lparr>inv_gamma := 0\<rparr>) 0 = Inl ZeroDivisionError
 \<and> get_decay (default_config\<lparr>inv_gamma := - 1\<rparr>) 2 = Inl ZeroDivisionError
 \<and> get_decay (default_config\<lparr>inv_gamma := - (1 / 10)\<rparr>) 2 = Inl TypeError
 \<and> get_decay (default_config\<lparr>power := - 1024\<rparr>) 2 = Inl OverflowError
 \<and> get_decay default_config (2 ^ 1024 + 1) = Inl OverflowError
 \<and> get_decay (default_config\<lparr>inv_gamma := 1 / 2 ^ 1023, power := 1 / 1024\<rparr>) 3 = Inr (9999 / 10000)
 \<and> clamp (1 - (1 + 2 / (1 / 2 ^ 1023)) powr (- (1 / 1024))) 0 (9999 / 10000) \<le> 3 / 4"
proof (intro conjI)
  note b = ovf_bound
  show "get_decay (default_config\<lparr>inv_gamma := 0\<rparr>) 0 = Inl ZeroDivisionError"
    using float_ovf_pos by (intro get_decay_zero_division) (simp_all add: default_config_def)
  have i1: "int_to_float 1 = Inr 1" using float_ovf_gt by (simp add: int_to_float_def)
  have i2: "int_to_float 2 = Inr 2" using b by (simp add: int_to_float_def)
  show "get_decay (default_config\<lparr>inv_gamma := - 1\<rparr>) 2 = Inl ZeroDivisionError"
    using float_ovf_gt by (simp add: get_decay_def default_config_def i1 float_div_def float_pow_def)
  have p9: "(9::real) powr (- (2 / 3)) \<le> 1" by (intro powr_neg_le_one) simp_all
  have ni: "\<not> is_integer (- (2 / 3))" by (simp add: is_integer_def)
  show "get_decay (default_config\<lparr>inv_gamma := - (1 / 10)\<rparr>) 2 = Inl TypeError"
    using b p9 ni by (simp add: get_decay_def default_config_def i1 float_div_def float_pow_def)
  have big: "float_ovf \<le> 2 ^ 1024" by (simp add: float_ovf_def)
  have p2: "(2::real) powr 1024 = 2 ^ 1024" by simp
  show "get_decay (default_config\<lparr>power := - 1024\<rparr>) 2 = Inl OverflowError"
    using b big by (simp add: get_decay_def default_config_def i1 float_div_def float_pow_def p2)
  show "get_decay default_config (2 ^ 1024 + 1) = Inl OverflowError"
    using big by (intro get_decay_overflow) (simp add: default_config_def)
  have q: "(2::real) / (1 / 2 ^ 1023) = 2 ^ 1024" by simp
  define g :: real where "g = 1 / 2 ^ 1023"
  have g0: "g \<noteq> 0" by (simp add: g_def)
  have gq: "float_ovf \<le> 2 / g" using big unfolding g_def q .
  have "get_decay (default_config\<lparr>inv_gamma := g, power := 1 / 1024\<rparr>) 3 = Inr (9999 / 10000)"
    using g0 gq by (simp add: get_decay_def default_config_def i2 float_div_def float_pow_def)
  then show "get_decay (default_config\<lparr>inv_gamma := 1 / 2 ^ 1023, power := 1 / 1024\<rparr>) 3
             = Inr (9999 / 10000)"
    unfolding g_def .
  have "(1::real) + 2 ^ 1024 \<le> 4 ^ 1024"
  proof -
    have "(4::real) ^ 1024 = 2 ^ 1024 * 2 ^ 1024" by (simp add: power_mult_distrib [symmetric])
    moreover have "(1::real) + 2 ^ 1024 \<le> 2 ^ 1024 + 2 ^ 1024" by simp
    moreover have "(2::real) ^ 1024 + 2 ^ 1024 = 2 ^ 1024 * 2" by simp
    moreover have "(2::real) ^ 1024 * 2 \<le> 2 ^ 1024 * 2 ^ 1024" by (intro mult_left_mono) simp_all
    ultimately show ?thesis by linarith
  qed
  then have "((4::real) ^ 1024) powr (- (1 / 1024)) \<le> (1 + 2 ^ 1024) powr (- (1 / 1024))"
    by (intro powr_mono2') simp_all
  moreover have "((4::real) ^ 1024) powr (- (1 / 1024)) = 1 / 4"
  proof -
    have "((4::real) ^ 1024) = 4 powr 1024" by simp
    then have "((4::real) ^ 1024) powr (- (1 / 1024)) = 4 powr (1024 * (- (1 / 1024)))"
      by (simp only: powr_powr)
    also have "\<dots> = 4 powr (- 1)" by simp
    also have "\<dots> = 1 / 4" by (simp add: powr_minus_divide)
    finally show ?thesis .
  qed
  ultimately have "1 / 4 \<le> (1 + (2::real) ^ 1024) powr (- (1 / 1024))" by simp
  then show "clamp (1 - (1 + 2 / (1 / 2 ^ 1023)) powr (- (1 / 1024))) 0 (9999 / 10000) \<le> 3 / 4"
    unfolding q by (simp add: clamp_def min_def max_def)
qed

theorem get_decay_spec_witness:
  "get_decay default_config 1 = Inr 0
   \<and> get_decay default_config 8 = Inr (clamp (1 - 8 powr (- (2 / 3))) 0 (9999 / 10000))
   \<and> get_decay (default_config\<lparr>inv_gamma := - (1 / 10), power := 2\<rparr>) 2 = Inr (80 / 81)
   \<and> (\<exists>d1 d2. get_decay default_config 3 = Inr d1 \<and> get_decay default_config 5 = Inr d2
         \<and> d1 \<le> d2 \<and> d2 \<le> 9999 / 10000)
   \<and> get_decay (default_config\<lparr>inv_gamma := 0\<rparr>) 5 = Inl ZeroDivisionError
   \<and> get_decay default_config (2 ^ 1024 + 7) = Inl OverflowError"
proof -
  note b = ovf_bound
  have z: "get_decay (default_config\<lparr>inv_gamma := 0\<rparr>) 5 = Inl ZeroDivisionError"
    using b get_decay_spec [where c = "default_config\<lparr>inv_gamma := 0\<rparr>" and s = 5]
    by (simp add: default_config_def)
  have "float_ovf \<le> 2 ^ 1024" by (simp add: float_ovf_def)
  then have "float_ovf \<le> of_int (2 ^ 1024 + 7) - 1" by simp
  then have o: "get_decay default_config (2 ^ 1024 + 7) = Inl OverflowError"
    using get_decay_spec [where ?s2.0 = "2 ^ 1024 + 7"] by blast
  have a: "get_decay default_config 1 = Inr 0"
    using get_decay_spec [where c = default_config and s = 1] by (simp add: default_config_def)
  have "(8::real) powr (- (2 / 3)) \<le> 1" by (intro powr_neg_le_one) simp_all
  with b have "(8::real) powr (- (2 / 3)) < float_ovf" by simp
  with b have f: "get_decay default_config 8 = Inr (clamp (1 - 8 powr (- (2 / 3))) 0 (9999 / 10000))"
    using get_decay_spec [where c = default_config and s = 8] by (simp add: default_config_def)
  have g: "get_decay (default_config\<lparr>inv_gamma := - (1 / 10), power := 2\<rparr>) 2 = Inr (80 / 81)"
    using b get_decay_spec [where c = "default_config\<lparr>inv_gamma := - (1 / 10), power := 2\<rparr>" and s = 2 and k = "- 2"]
    by (simp add: default_config_def clamp_def power_int_minus)
  have m: "\<exists>d1 d2. get_decay default_config 3 = Inr d1 \<and> get_decay default_config 5 = Inr d2
         \<and> d1 \<le> d2 \<and> d2 \<le> 9999 / 10000"
    using b get_decay_spec [where ?s1.0 = 3 and ?s2.0 = 5] by simp
  from a f g m z o show ?thesis by blast
qed

section \<open>Properties of the step of the moving average\<close>







lemma shape_blend [simp]: "shape (blend d v p) = shape v"
  by (simp add: blend_def)



















text \<open>
  C8. The claim says that after a call of \<^verbatim>\<open>step\<close> every live parameter that does not
  require gradients is copied into the shadow, and every named buffer of the live model has
  an identical value in the shadow. The function seeds a name the shadow's state dict lacks
  in the local dictionary \<^verbatim>\<open>ema_params\<close> only, and the non-strict load passes such names
  over. Here the live parameter \<open>frozen\<close> and the live buffer \<open>steps\<close> are in no entry of the
  averaged model after the call, which returns.
\<close>

theorem ema_step_drops_unknown_names:
  "step \<lparr>config = default_config,
         averaged_model = [(''w'', \<lparr>shape = [1], elems = [1]\<rparr>)],
         decay = 0, optimization_step = 0\<rparr>
        \<lparr>named_parameters =
           [(''w'', \<lparr>data = \<lparr>shape = [1], elems = [3]\<rparr>, requires_grad = True\<rparr>),
            (''frozen'', \<lparr>data = \<lparr>shape = [1], elems = [5]\<rparr>, requires_grad = False\<rparr>)],
         named_buffers = [(''steps'', \<lparr>shape = [], elems = [7]\<rparr>)]\<rparr>
   = Inr \<lparr>config = default_config,
          averaged_model = [(''w'', \<lparr>shape = [1], elems = [3]\<rparr>)],
          decay = 0, optimization_step = 1\<rparr>
   \<and> map_of [(''w'', \<lparr>shape = [1], elems = [3::real]\<rparr>)] ''frozen'' = None
   \<and> map_of [(''w'', \<lparr>shape = [1], elems = [3::real]\<rparr>)] ''steps'' = None"
proof -
  have d: "get_decay default_config 0 = Inr 0"
    by (rule get_decay_warmup) (simp_all add: default_config_def)
  show ?thesis
    by (simp add: step_def d update_param_def copy_into_def add_inplace_def mul_inplace_def
        expand_to_def expanded_def load_state_dict_def load_input_def Let_def)
qed




section \<open>Properties of the conditioned sampling routine\<close>




lemma timesteps_at_pos [simp]: "timesteps_at (g\<lparr>pos := q\<rparr>) = timesteps_at g"
  by (simp add: timesteps_at_def fun_eq_iff)

lemma noise_at_pos [simp]: "noise_at (g\<lparr>pos := q\<rparr>) = noise_at g"
  by (simp add: noise_at_def fun_eq_iff)




































end
